theory Spec2Isabelle
  imports Complex_Main
begin

section \<open>Data model (types.ts and the component state of App)\<close>

text \<open>
  The component is a single-threaded event-driven program: every callback body runs to
  its next \<^verbatim>\<open>await\<close> without interruption. Each such run is one function on
  the record \<open>app\<close>; the continuation after an \<^verbatim>\<open>await\<close> is a function of its
  own, so that other callbacks may run in between. Times of the audio clock and sample
  values are JavaScript numbers, modelled as reals.

  A callback reads the state as it is when the callback runs: the component is taken to
  have rendered since the last update, so that closures hold the current \<^verbatim>\<open>status\<close>
  and \<^verbatim>\<open>config\<close>. The video and canvas elements are mounted, and the ids that
  \<^verbatim>\<open>setInterval\<close> returns are truthy. The microphone stream is not part of the state:
  no statement of the component releases it.
\<close>

datatype SessionStatus = IDLE | CONNECTING | CONNECTED | ERROR

datatype VoiceName = Puck | Charon | Kore | Fenrir | Zephyr

datatype FacingMode = User | Environment

record LiveConfig =
  model :: string
  systemInstruction :: "string option"
  voiceName :: VoiceName
  isCameraEnabled :: bool
  isScreenSharing :: bool
  isMuted :: bool
  isMouseMode :: bool

text \<open>A value produced by \<^verbatim>\<open>JSON.parse\<close>; an object keeps its members in order.\<close>

datatype json =
    JNull
  | JBool bool
  | JNumber real
  | JString string
  | JArray "json list"
  | JObject "(string \<times> json) list"

subsection \<open>Platform objects\<close>

text \<open>
  A live-session transport, from \<^verbatim>\<open>ai.live.connect\<close> to its close, with the
  variables its callbacks close over: \<^verbatim>\<open>withVisual\<close>, \<^verbatim>\<open>sessionIsMouseMode\<close>
  and the \<^verbatim>\<open>config.isScreenSharing\<close> that \<^verbatim>\<open>onopen\<close> reads.
\<close>

datatype transport_state = Pending | Open | Closed

record transport =
  t_state :: transport_state
  t_withVisual :: bool
  t_sessionIsMouseMode :: bool
  t_sessionInstruction :: "string option"
  t_isScreenSharing :: bool

text \<open>
  The pair of nodes wired by \<^verbatim>\<open>onopen\<close>: the stream source and the script
  processor, whose handler closes over the \<^verbatim>\<open>sessionPromise\<close> of its transport.
\<close>

record audio_nodes =
  source_connected :: bool
  processor_connected :: bool
  nodes_session :: nat

text \<open>An \<^verbatim>\<open>AudioBufferSourceNode\<close> after \<^verbatim>\<open>start(when)\<close>.\<close>

record buffer_source =
  startAt :: real
  duration :: real
  stopped :: bool

text \<open>The decoded \<^verbatim>\<open>AudioBuffer\<close>; only its duration is read.\<close>

record AudioBuffer =
  buffer_duration :: real

datatype timeout_action =
    ClearLastCommand
  | RestartSession bool string bool

datatype outbound =
    AudioFrame "real list"
  | ToolResponse "string option" string string

text \<open>A call of \<^verbatim>\<open>startSession\<close> suspended at \<^verbatim>\<open>await getUserMedia({audio})\<close>.\<close>

record pending_start =
  ps_withVisual :: bool
  ps_sessionIsMouseMode :: bool
  ps_sessionInstruction :: "string option"
  ps_isScreenSharing :: bool

text \<open>
  A call of \<^verbatim>\<open>toggleCamera\<close> or \<^verbatim>\<open>toggleScreenShare\<close> suspended at its
  acquisition, with the \<^verbatim>\<open>sequence\<close> it captured.
\<close>

datatype media_kind = Camera | Screen

text \<open>The parts of a \<^verbatim>\<open>LiveServerMessage\<close> that \<^verbatim>\<open>onmessage\<close> reads.\<close>

record functionCall =
  fc_id :: "string option"
  fc_name :: "string option"
  fc_args :: "bool option"

record part =
  part_text :: "string option"
  part_inlineData :: "string option"

record message =
  toolCall :: "functionCall list option"
  modelTurn :: "part list option option"
  interrupted :: bool

datatype js_error = TypeError

record pending_media =
  pm_kind :: media_kind
  pm_sequence :: nat

text \<open>
  A run of \<^verbatim>\<open>onmessage\<close> suspended at \<^verbatim>\<open>await decodeAudioData\<close>; its message's
  \<^verbatim>\<open>interrupted\<close> flag is read after the await.
\<close>

record pending_decode =
  pd_interrupted :: bool

subsection \<open>Component state\<close>

text \<open>
  The first block holds the React state and refs of \<^verbatim>\<open>App\<close>, under their own names;
  the second block is the platform: objects are referred to by their index in the list
  that stores them, so that two refs to one object alias.
\<close>

record app =
  status :: SessionStatus
  config :: LiveConfig
  isUserTalking :: bool
  isModelTalking :: bool
  lastCommand :: "json option"
  facingMode :: FacingMode
  isMutedRef :: bool
  sessionRef :: "nat option"
  sessionPromiseRef :: "nat option"
  audioContextRef :: bool
  audioNodesRef :: "nat option"
  nextStartTimeRef :: real
  audioSourcesRef :: "nat list"
  videoSrcObject :: "nat option"
  frameIntervalRef :: "nat option"
  mediaRequestRef :: nat
  transports :: "transport list"
  audioNodes :: "audio_nodes list"
  bufferSources :: "buffer_source list"
  streams :: "bool list"
  intervals :: "bool list"
  timeouts :: "(nat \<times> timeout_action) list"
  clock :: nat
  sendCalls :: "(nat \<times> outbound) list"
  hasGetUserMedia :: bool
  pendingStarts :: "pending_start option list"
  pendingMedia :: "pending_media option list"
  pendingDecodes :: "pending_decode option list"

definition MOUSE_SYSTEM_INSTRUCTION :: string where
  "MOUSE_SYSTEM_INSTRUCTION =
     ''You are an AI-powered Digital System Mouse Controller.'' @ [CHR 0x0A] @
     ''Your role is to act like the brain of a virtual mouse that controls the OPERATING SYSTEM.'' @
     [CHR 0x0A] @ ''Reply ONLY in valid JSON format for mouse actions.''"

definition NORMAL_SYSTEM_INSTRUCTION :: string where
  "NORMAL_SYSTEM_INSTRUCTION =
     ''You are a helpful, friendly assistant. '' @ [CHR 0x0A] @
     ''Talk naturally and help the user. Keep responses conversational and brief.''"

definition MODEL_NAME :: string where
  "MODEL_NAME = ''gemini-2.5-flash-native-audio-preview-12-2025''"

definition initial_config :: LiveConfig where
  "initial_config = \<lparr> model = MODEL_NAME, systemInstruction = Some MOUSE_SYSTEM_INSTRUCTION,
     voiceName = Zephyr, isCameraEnabled = False, isScreenSharing = False,
     isMuted = False, isMouseMode = True \<rparr>"

definition initial_app :: app where
  "initial_app = \<lparr> status = IDLE, config = initial_config, isUserTalking = False,
     isModelTalking = False, lastCommand = None, facingMode = User, isMutedRef = False,
     sessionRef = None, sessionPromiseRef = None, audioContextRef = False,
     audioNodesRef = None, nextStartTimeRef = 0, audioSourcesRef = [],
     videoSrcObject = None, frameIntervalRef = None, mediaRequestRef = 0,
     transports = [], audioNodes = [], bufferSources = [], streams = [], intervals = [],
     timeouts = [], clock = 0, sendCalls = [], hasGetUserMedia = True,
     pendingStarts = [], pendingMedia = [], pendingDecodes = [] \<rparr>"

section \<open>Playback scheduling (onmessage, audio and interrupted branches)\<close>

text \<open>
  \<^verbatim>\<open>source.stop()\<close> inside \<^verbatim>\<open>try/catch\<close>: the node is marked stopped; a handle
  that names no node changes nothing.
\<close>

definition stop_source :: "nat \<Rightarrow> buffer_source list \<Rightarrow> buffer_source list" where
  "stop_source i bs = (if i < length bs then bs[i := (bs ! i)\<lparr>stopped := True\<rparr>] else bs)"

definition stop_sources :: "nat list \<Rightarrow> buffer_source list \<Rightarrow> buffer_source list" where
  "stop_sources ids bs = fold stop_source ids bs"

text \<open>
  Lines 199-200, up to the \<^verbatim>\<open>await decodeAudioData\<close>: the argument is
  \<^verbatim>\<open>outputCtx.currentTime\<close>.
\<close>

definition audio_begin :: "real \<Rightarrow> app \<Rightarrow> app" where
  "audio_begin currentTime s =
     s\<lparr> isModelTalking := True,
        nextStartTimeRef := max (nextStartTimeRef s) currentTime \<rparr>"

text \<open>Lines 202-211, the continuation once the buffer is decoded.\<close>

definition audio_scheduled :: "AudioBuffer \<Rightarrow> app \<Rightarrow> app" where
  "audio_scheduled audioBuffer s =
     s\<lparr> bufferSources := bufferSources s @
          [\<lparr> startAt = nextStartTimeRef s, duration = buffer_duration audioBuffer,
             stopped = False \<rparr>],
        nextStartTimeRef := nextStartTimeRef s + buffer_duration audioBuffer,
        audioSourcesRef := audioSourcesRef s @ [length (bufferSources s)] \<rparr>"




text \<open>\<^verbatim>\<open>source.onended\<close>, lines 205-208.\<close>

definition source_onended :: "nat \<Rightarrow> app \<Rightarrow> app" where
  "source_onended i s =
     (let rest = removeAll i (audioSourcesRef s)
      in s\<lparr> audioSourcesRef := rest,
            isModelTalking := (if length rest = 0 then False else isModelTalking s) \<rparr>)"

text \<open>
  \<^verbatim>\<open>audioSourcesRef.current.forEach(s => { try { s.stop(); } catch(e) {} })\<close> and
  \<^verbatim>\<open>audioSourcesRef.current.clear()\<close>, lines 94-95 and 214-215.
\<close>

definition stop_playback :: "app \<Rightarrow> app" where
  "stop_playback s =
     s\<lparr> bufferSources := stop_sources (audioSourcesRef s) (bufferSources s),
        audioSourcesRef := [] \<rparr>"

text \<open>Lines 213-218, the body of \<^verbatim>\<open>if (message.serverContent?.interrupted)\<close>.\<close>

definition interrupted_branch :: "app \<Rightarrow> app" where
  "interrupted_branch s = (stop_playback s)\<lparr> nextStartTimeRef := 0, isModelTalking := False \<rparr>"

section \<open>Teardown and media capture\<close>

text \<open>\<^verbatim>\<open>session.close()\<close> on the transport a handle names.\<close>

definition close_transport :: "nat \<Rightarrow> transport list \<Rightarrow> transport list" where
  "close_transport i ts = (if i < length ts then ts[i := (ts ! i)\<lparr>t_state := Closed\<rparr>] else ts)"

text \<open>\<^verbatim>\<open>processor.disconnect()\<close> and \<^verbatim>\<open>source.disconnect()\<close> on a pair of nodes.\<close>

definition disconnect_nodes :: "nat \<Rightarrow> audio_nodes list \<Rightarrow> audio_nodes list" where
  "disconnect_nodes i ns =
     (if i < length ns
      then ns[i := (ns ! i)\<lparr> source_connected := False, processor_connected := False \<rparr>]
      else ns)"

text \<open>\<^verbatim>\<open>stream.getTracks().forEach(t => t.stop())\<close>.\<close>

definition stop_tracks :: "nat \<Rightarrow> bool list \<Rightarrow> bool list" where
  "stop_tracks i ss = (if i < length ss then ss[i := False] else ss)"

text \<open>\<^verbatim>\<open>clearInterval(id)\<close>.\<close>

definition clearInterval :: "nat \<Rightarrow> bool list \<Rightarrow> bool list" where
  "clearInterval i xs = (if i < length xs then xs[i := False] else xs)"

text \<open>
  Lines 97-100 of \<^verbatim>\<open>stopSession\<close> and 263-267 of \<^verbatim>\<open>stopMediaTracks\<close>: the
  stream of the video element is stopped and detached.
\<close>

definition release_video :: "app \<Rightarrow> app" where
  "release_video s =
     (case videoSrcObject s of
        Some oldStream \<Rightarrow>
          s\<lparr> streams := stop_tracks oldStream (streams s), videoSrcObject := None \<rparr>
      | None \<Rightarrow> s)"

text \<open>Lines 102-105 and 268-271: the frame sampler is cleared.\<close>

definition clear_frame_interval :: "app \<Rightarrow> app" where
  "clear_frame_interval s =
     (case frameIntervalRef s of
        Some i \<Rightarrow> s\<lparr> intervals := clearInterval i (intervals s), frameIntervalRef := None \<rparr>
      | None \<Rightarrow> s)"

text \<open>\<^verbatim>\<open>stopMediaTracks\<close>, lines 262-272.\<close>

definition stopMediaTracks :: "app \<Rightarrow> app" where
  "stopMediaTracks s = clear_frame_interval (release_video s)"

text \<open>Lines 87-91: the session is closed and both session refs are cleared.\<close>

definition close_session :: "app \<Rightarrow> app" where
  "close_session s =
     (case sessionRef s of
        Some i \<Rightarrow>
          s\<lparr> transports := close_transport i (transports s), sessionRef := None,
             sessionPromiseRef := None \<rparr>
      | None \<Rightarrow> s\<lparr> sessionPromiseRef := None \<rparr>)"

text \<open>Lines 92-93: the nodes in \<^verbatim>\<open>audioNodesRef\<close> are disconnected; the ref is kept.\<close>

definition disconnect_audio_nodes :: "app \<Rightarrow> app" where
  "disconnect_audio_nodes s =
     (case audioNodesRef s of
        Some n \<Rightarrow> s\<lparr> audioNodes := disconnect_nodes n (audioNodes s) \<rparr>
      | None \<Rightarrow> s)"

text \<open>Lines 107-110: the published state is reset.\<close>

definition reset_published :: "app \<Rightarrow> app" where
  "reset_published s =
     s\<lparr> status := IDLE, isUserTalking := False, isModelTalking := False,
        config := (config s)\<lparr> isCameraEnabled := False, isScreenSharing := False \<rparr> \<rparr>"

text \<open>
  \<^verbatim>\<open>stopSession\<close>, lines 86-111, in the order of its statements. The ref
  \<^verbatim>\<open>nextStartTimeRef\<close> is not assigned.
\<close>

definition stopSession :: "app \<Rightarrow> app" where
  "stopSession s =
     reset_published (clear_frame_interval (release_video (stop_playback
       (disconnect_audio_nodes (close_session s)))))"

text \<open>
  \<^verbatim>\<open>startMediaStreaming\<close>, lines 229-260: the stream is attached to the video
  element, a running sampler is cleared and a new one is started.
\<close>

definition startMediaStreaming :: "nat \<Rightarrow> app \<Rightarrow> app" where
  "startMediaStreaming stream s =
     (let s1 = s\<lparr> videoSrcObject := Some stream \<rparr>;
          s2 = (case frameIntervalRef s1 of
                  Some i \<Rightarrow> s1\<lparr> intervals := clearInterval i (intervals s1) \<rparr>
                | None \<Rightarrow> s1)
      in s2\<lparr> intervals := intervals s2 @ [True],
             frameIntervalRef := Some (length (intervals s2)) \<rparr>)"

text \<open>The \<^verbatim>\<open>onended\<close> handler of the video track, lines 256-259.\<close>

definition track_onended :: "app \<Rightarrow> app" where
  "track_onended s =
     (let s1 = stopMediaTracks s
      in s1\<lparr> config := (config s1)\<lparr> isCameraEnabled := False, isScreenSharing := False \<rparr> \<rparr>)"

text \<open>
  \<^verbatim>\<open>toggleCamera\<close> (lines 274-293) and \<^verbatim>\<open>toggleScreenShare\<close> (lines 295-313)
  up to the acquisition: the counter is incremented and captured, the current stream is
  stopped, and the call either suspends on the acquisition or clears its flag. The facing
  mode of \<^verbatim>\<open>toggleCamera\<close> only selects the device the platform is asked for.
\<close>

definition toggleCamera :: "bool \<Rightarrow> app \<Rightarrow> app" where
  "toggleCamera forceEnable s =
     (let sequence = mediaRequestRef s + 1;
          shouldEnable = (forceEnable \<or> \<not> isCameraEnabled (config s));
          s1 = stopMediaTracks (s\<lparr> mediaRequestRef := sequence \<rparr>)
      in if shouldEnable
         then s1\<lparr> pendingMedia := pendingMedia s1 @
                      [Some \<lparr> pm_kind = Camera, pm_sequence = sequence \<rparr>] \<rparr>
         else s1\<lparr> config := (config s1)\<lparr> isCameraEnabled := False \<rparr> \<rparr>)"

definition toggleScreenShare :: "bool \<Rightarrow> app \<Rightarrow> app" where
  "toggleScreenShare forceEnable s =
     (let sequence = mediaRequestRef s + 1;
          shouldEnable = (forceEnable \<or> \<not> isScreenSharing (config s));
          s1 = stopMediaTracks (s\<lparr> mediaRequestRef := sequence \<rparr>)
      in if shouldEnable
         then s1\<lparr> pendingMedia := pendingMedia s1 @
                      [Some \<lparr> pm_kind = Screen, pm_sequence = sequence \<rparr>] \<rparr>
         else s1\<lparr> config := (config s1)\<lparr> isScreenSharing := False \<rparr> \<rparr>)"

text \<open>\<^verbatim>\<open>flipCamera\<close>, lines 315-319.\<close>

definition flipCamera :: "app \<Rightarrow> app" where
  "flipCamera s =
     (let nextMode = (if facingMode s = User then Environment else User);
          s1 = s\<lparr> facingMode := nextMode \<rparr>
      in if isCameraEnabled (config s) then toggleCamera True s1 else s1)"

text \<open>
  The continuation when the acquisition resolves with a stream (lines 284-286 and
  304-306). The platform has created the stream, with live tracks, as the next entry of
  \<open>streams\<close>.
\<close>

definition acquisition_resolved :: "pending_media \<Rightarrow> app \<Rightarrow> app" where
  "acquisition_resolved r s =
     (let stream = length (streams s);
          s1 = s\<lparr> streams := streams s @ [True] \<rparr>
      in if pm_sequence r \<noteq> mediaRequestRef s1
         then s1\<lparr> streams := stop_tracks stream (streams s1) \<rparr>
         else (let s2 = startMediaStreaming stream s1
               in (case pm_kind r of
                     Camera \<Rightarrow>
                       s2\<lparr> config := (config s2)\<lparr> isCameraEnabled := True,
                                                   isScreenSharing := False \<rparr> \<rparr>
                   | Screen \<Rightarrow>
                       s2\<lparr> config := (config s2)\<lparr> isScreenSharing := True,
                                                   isCameraEnabled := False \<rparr> \<rparr>)))"

text \<open>The \<^verbatim>\<open>catch\<close> when the acquisition rejects (lines 287-289 and 307-309).\<close>

definition acquisition_rejected :: "pending_media \<Rightarrow> app \<Rightarrow> app" where
  "acquisition_rejected r s =
     (case pm_kind r of
        Camera \<Rightarrow> s\<lparr> config := (config s)\<lparr> isCameraEnabled := False \<rparr> \<rparr>
      | Screen \<Rightarrow> s\<lparr> config := (config s)\<lparr> isScreenSharing := False \<rparr> \<rparr>)"

section \<open>Command interpretation (isJsonLike and the text branch of onmessage)\<close>

subsection \<open>String operations of the platform\<close>

text \<open>The white space \<^verbatim>\<open>String.prototype.trim\<close> removes, among the ASCII characters.\<close>

definition is_trim_space :: "char \<Rightarrow> bool" where
  "is_trim_space c = (c \<in> set [CHR 0x09, CHR 0x0A, CHR 0x0B, CHR 0x0C, CHR 0x0D, CHR 0x20])"

definition trim :: "string \<Rightarrow> string" where
  "trim text = rev (dropWhile is_trim_space (rev (dropWhile is_trim_space text)))"

definition startsWith :: "string \<Rightarrow> string \<Rightarrow> bool" where
  "startsWith text p = (take (length p) text = p)"

fun includes_str :: "string \<Rightarrow> string \<Rightarrow> bool" where
  "includes_str [] p = (p = [])"
| "includes_str (c # cs) p = (startsWith (c # cs) p \<or> includes_str cs p)"

text \<open>
  \<^verbatim>\<open>text.match(/\{[\s\S]*\}/)\<close>: the leftmost match starts at the first opening
  brace and, the star being greedy, ends at the last closing brace after it.
\<close>

definition match_braces :: "string \<Rightarrow> string option" where
  "match_braces text =
     (let fromOpen = dropWhile (\<lambda>c. c \<noteq> CHR 0x7B) text;
          span = rev (dropWhile (\<lambda>c. c \<noteq> CHR 0x7D) (rev fromOpen))
      in if span = [] then None else Some span)"

subsection \<open>JSON.parse\<close>

definition is_json_space :: "char \<Rightarrow> bool" where
  "is_json_space c = (c \<in> set [CHR 0x09, CHR 0x0A, CHR 0x0D, CHR 0x20])"

definition skip_space :: "string \<Rightarrow> string" where
  "skip_space text = dropWhile is_json_space text"

definition is_digit :: "char \<Rightarrow> bool" where
  "is_digit c = (48 \<le> (of_char c :: nat) \<and> (of_char c :: nat) \<le> 57)"

definition digit_value :: "char \<Rightarrow> nat" where
  "digit_value c = of_char c - 48"

definition digits_value :: "string \<Rightarrow> nat" where
  "digits_value ds = foldl (\<lambda>a c. 10 * a + digit_value c) 0 ds"

definition hex_value :: "char \<Rightarrow> nat option" where
  "hex_value c =
     (let n = (of_char c :: nat)
      in if 48 \<le> n \<and> n \<le> 57 then Some (n - 48)
         else if 65 \<le> n \<and> n \<le> 70 then Some (n - 55)
         else if 97 \<le> n \<and> n \<le> 102 then Some (n - 87)
         else None)"

fun hex4_value :: "string \<Rightarrow> nat option" where
  "hex4_value [a, b, c, d] =
     (case (hex_value a, hex_value b, hex_value c, hex_value d) of
        (Some x, Some y, Some z, Some w) \<Rightarrow> Some (((x * 16 + y) * 16 + z) * 16 + w)
      | _ \<Rightarrow> None)"
| "hex4_value _ = None"

text \<open>
  Strings are byte strings here: a code unit from a \<^verbatim>\<open>\\u\<close> escape is stored in
  UTF-8.
\<close>

definition utf8 :: "nat \<Rightarrow> string" where
  "utf8 n =
     (if n < 128 then [char_of n]
      else if n < 2048 then [char_of (192 + n div 64), char_of (128 + n mod 64)]
      else [char_of (224 + n div 4096), char_of (128 + (n div 64) mod 64),
            char_of (128 + n mod 64)])"

definition simple_escape :: "char \<Rightarrow> char option" where
  "simple_escape e =
     (if e = CHR 0x22 then Some (CHR 0x22)
      else if e = CHR 0x5C then Some (CHR 0x5C)
      else if e = CHR ''/'' then Some (CHR ''/'')
      else if e = CHR ''b'' then Some (CHR 0x08)
      else if e = CHR ''f'' then Some (CHR 0x0C)
      else if e = CHR ''n'' then Some (CHR 0x0A)
      else if e = CHR ''r'' then Some (CHR 0x0D)
      else if e = CHR ''t'' then Some (CHR 0x09)
      else None)"

text \<open>The characters of a string literal after its opening quote, and the rest.\<close>

function parse_string_body :: "string \<Rightarrow> (string \<times> string) option" where
  "parse_string_body [] = None"
| "parse_string_body (c # cs) =
     (if c = CHR 0x22 then Some ([], cs)
      else if c = CHR 0x5C then
        (case cs of
           [] \<Rightarrow> None
         | e # r \<Rightarrow>
             if e = CHR ''u'' then
               (case hex4_value (take 4 r) of
                  None \<Rightarrow> None
                | Some n \<Rightarrow>
                    (case parse_string_body (drop 4 r) of
                       None \<Rightarrow> None
                     | Some (body, rest) \<Rightarrow> Some (utf8 n @ body, rest)))
             else
               (case simple_escape e of
                  None \<Rightarrow> None
                | Some ch \<Rightarrow>
                    (case parse_string_body r of
                       None \<Rightarrow> None
                     | Some (body, rest) \<Rightarrow> Some (ch # body, rest))))
      else if (of_char c :: nat) < 32 then None
      else (case parse_string_body cs of
              None \<Rightarrow> None
            | Some (body, rest) \<Rightarrow> Some (c # body, rest)))"
  by pat_completeness auto
termination
  by (relation "measure length") auto

text \<open>
  A number token: \<^verbatim>\<open>-?(0|[1-9][0-9]*)(\.[0-9]+)?([eE][+-]?[0-9]+)?\<close>, and its value.
\<close>

definition parse_exponent :: "string \<Rightarrow> (int \<times> string) option" where
  "parse_exponent text =
     (case text of
        [] \<Rightarrow> Some (0, text)
      | e # r \<Rightarrow>
          if e = CHR ''e'' \<or> e = CHR ''E'' then
            (let neg = (r \<noteq> [] \<and> hd r = CHR ''-'');
                 r1 = (if r \<noteq> [] \<and> (hd r = CHR ''-'' \<or> hd r = CHR ''+'') then tl r else r);
                 ds = takeWhile is_digit r1
             in if ds = [] then None
                else Some ((if neg then - int (digits_value ds) else int (digits_value ds)),
                           dropWhile is_digit r1))
          else Some (0, text))"

definition parse_fraction :: "string \<Rightarrow> (real \<times> string) option" where
  "parse_fraction text =
     (case text of
        [] \<Rightarrow> Some (0, text)
      | d # r \<Rightarrow>
          if d = CHR ''.'' then
            (let ds = takeWhile is_digit r
             in if ds = [] then None
                else Some (real (digits_value ds) / 10 ^ length ds, dropWhile is_digit r))
          else Some (0, text))"

definition parse_number :: "string \<Rightarrow> (real \<times> string) option" where
  "parse_number text =
     (let neg = (text \<noteq> [] \<and> hd text = CHR ''-'');
          t1 = (if neg then tl text else text);
          ds = (if t1 \<noteq> [] \<and> hd t1 = CHR ''0'' then ''0'' else takeWhile is_digit t1);
          t2 = drop (length ds) t1
      in if ds = [] then None
         else (case parse_fraction t2 of
                 None \<Rightarrow> None
               | Some (f, t3) \<Rightarrow>
                   (case parse_exponent t3 of
                      None \<Rightarrow> None
                    | Some (e, t4) \<Rightarrow>
                        (let m = real (digits_value ds) + f;
                             v = (if 0 \<le> e then m * 10 ^ nat e else m / 10 ^ nat (- e))
                         in Some ((if neg then - v else v), t4)))))"

text \<open>
  The value grammar by recursive descent. The first argument bounds the number of nested
  and successive calls; every call consumes a character, so the length of the text
  suffices. \<open>None\<close> is the \<^verbatim>\<open>SyntaxError\<close>.
\<close>

fun parse_value :: "nat \<Rightarrow> string \<Rightarrow> (json \<times> string) option"
  and parse_elements :: "nat \<Rightarrow> json list \<Rightarrow> string \<Rightarrow> (json list \<times> string) option"
  and parse_members ::
    "nat \<Rightarrow> (string \<times> json) list \<Rightarrow> string \<Rightarrow> ((string \<times> json) list \<times> string) option"
where
  "parse_value 0 text = None"
| "parse_value (Suc n) text =
     (case skip_space text of
        [] \<Rightarrow> None
      | c # cs \<Rightarrow>
          if c = CHR 0x7B then
            (if startsWith (skip_space cs) [CHR 0x7D] then Some (JObject [], tl (skip_space cs))
             else (case parse_members n [] cs of
                     None \<Rightarrow> None
                   | Some (ms, rest) \<Rightarrow> Some (JObject ms, rest)))
          else if c = CHR ''['' then
            (if startsWith (skip_space cs) '']'' then Some (JArray [], tl (skip_space cs))
             else (case parse_elements n [] cs of
                     None \<Rightarrow> None
                   | Some (vs, rest) \<Rightarrow> Some (JArray vs, rest)))
          else if c = CHR 0x22 then
            (case parse_string_body cs of
               None \<Rightarrow> None
             | Some (str, rest) \<Rightarrow> Some (JString str, rest))
          else if startsWith (c # cs) ''true'' then Some (JBool True, drop 4 (c # cs))
          else if startsWith (c # cs) ''false'' then Some (JBool False, drop 5 (c # cs))
          else if startsWith (c # cs) ''null'' then Some (JNull, drop 4 (c # cs))
          else (case parse_number (c # cs) of
                  None \<Rightarrow> None
                | Some (x, rest) \<Rightarrow> Some (JNumber x, rest)))"
| "parse_elements 0 acc text = None"
| "parse_elements (Suc n) acc text =
     (case parse_value n text of
        None \<Rightarrow> None
      | Some (v, rest) \<Rightarrow>
          if startsWith (skip_space rest) '','' then
            parse_elements n (acc @ [v]) (tl (skip_space rest))
          else if startsWith (skip_space rest) '']'' then
            Some (acc @ [v], tl (skip_space rest))
          else None)"
| "parse_members 0 acc text = None"
| "parse_members (Suc n) acc text =
     (if startsWith (skip_space text) [CHR 0x22] then
        (case parse_string_body (tl (skip_space text)) of
           None \<Rightarrow> None
         | Some (key, rest) \<Rightarrow>
             if startsWith (skip_space rest) '':'' then
               (case parse_value n (tl (skip_space rest)) of
                  None \<Rightarrow> None
                | Some (v, rest') \<Rightarrow>
                    if startsWith (skip_space rest') '','' then
                      parse_members n (acc @ [(key, v)]) (tl (skip_space rest'))
                    else if startsWith (skip_space rest') [CHR 0x7D] then
                      Some (acc @ [(key, v)], tl (skip_space rest'))
                    else None)
             else None)
      else None)"

definition JSON_parse :: "string \<Rightarrow> json option" where
  "JSON_parse text =
     (case parse_value (Suc (length text)) text of
        None \<Rightarrow> None
      | Some (v, rest) \<Rightarrow> if skip_space rest = [] then Some v else None)"

text \<open>
  Reading a property of a parsed value: \<open>None\<close> is \<^verbatim>\<open>undefined\<close>. Of two members
  with one key the later one is the property.
\<close>

fun get_property :: "json \<Rightarrow> string \<Rightarrow> json option" where
  "get_property (JObject ms) key = map_of (rev ms) key"
| "get_property _ key = None"

text \<open>The truth value JavaScript gives a parsed value in a condition.\<close>

fun truthy :: "json \<Rightarrow> bool" where
  "truthy JNull = False"
| "truthy (JBool b) = b"
| "truthy (JNumber x) = (x \<noteq> 0)"
| "truthy (JString str) = (str \<noteq> [])"
| "truthy (JArray vs) = True"
| "truthy (JObject ms) = True"

subsection \<open>The text branch\<close>

text \<open>\<^verbatim>\<open>isJsonLike\<close>, lines 66-69.\<close>

definition isJsonLike :: "string \<Rightarrow> bool" where
  "isJsonLike text =
     (let trimmed = trim text
      in startsWith trimmed [CHR 0x7B] \<and>
         includes_str trimmed ([CHR 0x22] @ ''action'' @ [CHR 0x22]))"

text \<open>
  Lines 183-193 for one text: the command that is published, if any. A failed
  \<^verbatim>\<open>JSON.parse\<close> is caught by the \<^verbatim>\<open>try\<close> and publishes nothing.
\<close>

definition text_command :: "string \<Rightarrow> json option" where
  "text_command text =
     (if text \<noteq> [] \<and> isJsonLike text then
        (case match_braces text of
           None \<Rightarrow> None
         | Some jsonMatch \<Rightarrow>
             (case JSON_parse jsonMatch of
                None \<Rightarrow> None
              | Some cmd \<Rightarrow>
                  (case get_property cmd ''action'' of
                     None \<Rightarrow> None
                   | Some action \<Rightarrow>
                       if truthy action \<and> action \<noteq> JString ''none'' then Some cmd
                       else None)))
      else None)"

text \<open>Lines 189-190: the command is published and its expiry is scheduled.\<close>

definition publish_command :: "json \<Rightarrow> app \<Rightarrow> app" where
  "publish_command cmd s =
     s\<lparr> lastCommand := Some cmd,
        timeouts := timeouts s @ [(clock s + 3000, ClearLastCommand)] \<rparr>"

section \<open>Session lifecycle\<close>

text \<open>
  \<^verbatim>\<open>startSession\<close>, lines 113-129, up to the awaits that end with the microphone
  request. The values the rest of the call reads from \<^verbatim>\<open>config\<close> and from its
  arguments are kept with the suspended call. An empty override is falsy, so
  \<^verbatim>\<open>instructionOverride || config.systemInstruction\<close> falls back on the config.
\<close>

definition startSession :: "bool \<Rightarrow> string option \<Rightarrow> bool option \<Rightarrow> app \<Rightarrow> app" where
  "startSession withVisual instructionOverride isMouseModeOverride s =
     (if \<not> hasGetUserMedia s then s
      else
        (let s1 = s\<lparr> status := CONNECTING, audioContextRef := True \<rparr>;
             sessionIsMouseMode =
               (case isMouseModeOverride of Some b \<Rightarrow> b | None \<Rightarrow> isMouseMode (config s));
             sessionInstruction =
               (case instructionOverride of
                  Some i \<Rightarrow> if i \<noteq> [] then Some i else systemInstruction (config s)
                | None \<Rightarrow> systemInstruction (config s))
         in s1\<lparr> pendingStarts := pendingStarts s1 @
              [Some \<lparr> ps_withVisual = withVisual, ps_sessionIsMouseMode = sessionIsMouseMode,
                       ps_sessionInstruction = sessionInstruction,
                       ps_isScreenSharing = isScreenSharing (config s) \<rparr>] \<rparr>))"

text \<open>
  The microphone request settles. Granted: lines 131-224, \<^verbatim>\<open>ai.live.connect\<close> opens a
  transport, the promise is stored and the call suspends on it. Denied: the
  \<^verbatim>\<open>catch\<close> of line 226.
\<close>

definition microphone_resolved :: "pending_start \<Rightarrow> bool \<Rightarrow> app \<Rightarrow> app" where
  "microphone_resolved ps granted s =
     (if granted
      then s\<lparr> transports := transports s @
                [\<lparr> t_state = Pending, t_withVisual = ps_withVisual ps,
                   t_sessionIsMouseMode = ps_sessionIsMouseMode ps,
                   t_sessionInstruction = ps_sessionInstruction ps,
                   t_isScreenSharing = ps_isScreenSharing ps \<rparr>],
              sessionPromiseRef := Some (length (transports s)) \<rparr>
      else s\<lparr> status := IDLE \<rparr>)"

text \<open>
  \<^verbatim>\<open>onopen\<close>, lines 142-160, for transport \<open>k\<close>, whose record \<open>tr\<close> holds the
  variables the callback closes over.
\<close>

definition onopen :: "nat \<Rightarrow> transport \<Rightarrow> app \<Rightarrow> app" where
  "onopen k tr s =
     (let s1 = s\<lparr> status := CONNECTED \<rparr>;
          s2 = s1\<lparr> audioNodes := audioNodes s1 @
                   [\<lparr> source_connected = True, processor_connected = True,
                      nodes_session = k \<rparr>],
                 audioNodesRef := Some (length (audioNodes s1)) \<rparr>
      in if t_withVisual tr
         then (if t_isScreenSharing tr then toggleScreenShare True s2
               else toggleCamera True s2)
         else s2)"

text \<open>
  The connection of transport \<open>k\<close> settles. Opened: \<^verbatim>\<open>onopen\<close> runs, the promise
  resolves and line 225 stores the session. Failed: the \<^verbatim>\<open>catch\<close> of line 226.
\<close>

definition connect_resolved :: "nat \<Rightarrow> transport \<Rightarrow> bool \<Rightarrow> app \<Rightarrow> app" where
  "connect_resolved k tr opened s =
     (if opened
      then (let s1 = onopen k tr (s\<lparr> transports := (transports s)[k := tr\<lparr>t_state := Open\<rparr>] \<rparr>)
            in s1\<lparr> sessionRef := Some k \<rparr>)
      else s\<lparr> transports := close_transport k (transports s), status := IDLE \<rparr>)"

text \<open>\<^verbatim>\<open>applyMouseMode\<close>, lines 71-80.\<close>

definition applyMouseMode :: "bool \<Rightarrow> app \<Rightarrow> app" where
  "applyMouseMode enabled s =
     (let nextInstruction =
            (if enabled then MOUSE_SYSTEM_INSTRUCTION else NORMAL_SYSTEM_INSTRUCTION);
          s1 = s\<lparr> config := (config s)\<lparr> isMouseMode := enabled,
                                        systemInstruction := Some nextInstruction \<rparr> \<rparr>
      in if status s = CONNECTED \<or> status s = CONNECTING
         then (let wasCameraEnabled = isCameraEnabled (config s);
                   wasScreenSharing = isScreenSharing (config s);
                   s2 = stopSession s1
               in s2\<lparr> timeouts := timeouts s2 @
                      [(clock s2 + 150,
                        RestartSession (wasCameraEnabled \<or> wasScreenSharing) nextInstruction
                          enabled)] \<rparr>)
         else s1)"

text \<open>\<^verbatim>\<open>toggleMouseMode\<close>, lines 82-84.\<close>

definition toggleMouseMode :: "app \<Rightarrow> app" where
  "toggleMouseMode s = applyMouseMode (\<not> isMouseMode (config s)) s"

text \<open>
  \<^verbatim>\<open>setConfig(prev => ({...prev, isMuted: !prev.isMuted}))\<close> and the effect of lines
  51-53 that copies the flag into \<^verbatim>\<open>isMutedRef\<close>.
\<close>

definition toggle_muted :: "app \<Rightarrow> app" where
  "toggle_muted s =
     s\<lparr> config := (config s)\<lparr> isMuted := \<not> isMuted (config s) \<rparr>,
        isMutedRef := \<not> isMuted (config s) \<rparr>"

definition toLowerCase :: "string \<Rightarrow> string" where
  "toLowerCase str =
     map (\<lambda>c. if 65 \<le> (of_char c :: nat) \<and> (of_char c :: nat) \<le> 90
              then char_of ((of_char c :: nat) + 32) else c) str"

text \<open>\<^verbatim>\<open>handleKeyDown\<close>, lines 322-327; the argument is \<^verbatim>\<open>e.key\<close>.\<close>

definition handleKeyDown :: "string \<Rightarrow> app \<Rightarrow> app" where
  "handleKeyDown e_key s =
     (let key = toLowerCase e_key
      in if key = ''enter''
         then (if status s = CONNECTED then stopSession s else startSession False None None s)
         else if key = ''m'' then toggle_muted s
         else if key = ''escape'' \<and> status s = CONNECTED then stopSession s
         else s)"

text \<open>The \<^verbatim>\<open>onClick\<close> of the call button, line 374.\<close>

definition call_button :: "app \<Rightarrow> app" where
  "call_button s =
     (if status s = CONNECTED then stopSession s else startSession False None None s)"

section \<open>Microphone frames (scriptProcessor.onaudioprocess)\<close>

text \<open>
  Lines 146-152, for the processor that closes over the promise of transport \<open>k\<close>. The
  promise has resolved when frames arrive, so the send is called; its argument is
  \<^verbatim>\<open>createBlob(inputData)\<close>, recorded by the frame it encodes.
\<close>

definition onaudioprocess :: "nat \<Rightarrow> real list \<Rightarrow> app \<Rightarrow> app" where
  "onaudioprocess k inputData s =
     (if isMutedRef s then s\<lparr> isUserTalking := False \<rparr>
      else
        (let sum = foldl (\<lambda>a b. a + \<bar>b\<bar>) 0 inputData
         in s\<lparr> isUserTalking := (sum / real (length inputData) > 0.01),
               sendCalls := sendCalls s @
                 [(k, AudioFrame inputData)] \<rparr>))"

section \<open>Inbound messages (onmessage)\<close>

text \<open>
  Line 197, \<^verbatim>\<open>message.serverContent?.modelTurn?.parts[0]?.inlineData?.data\<close>: absent
  content gives \<^verbatim>\<open>undefined\<close>, a model turn without \<^verbatim>\<open>parts\<close> throws.
\<close>

definition audioData :: "message \<Rightarrow> js_error + string option" where
  "audioData m =
     (case modelTurn m of
        None \<Rightarrow> Inr None
      | Some None \<Rightarrow> Inl TypeError
      | Some (Some parts) \<Rightarrow>
          (case parts of [] \<Rightarrow> Inr None | p # _ \<Rightarrow> Inr (part_inlineData p)))"

text \<open>Lines 181-195, the text branch, for the transport's \<^verbatim>\<open>sessionIsMouseMode\<close>.\<close>

definition text_branch :: "bool \<Rightarrow> message \<Rightarrow> app \<Rightarrow> app" where
  "text_branch sessionIsMouseMode m s =
     (case modelTurn m of
        Some (Some parts) \<Rightarrow>
          if sessionIsMouseMode then
            (case find (\<lambda>p. part_text p \<noteq> None \<and> part_text p \<noteq> Some []) parts of
               None \<Rightarrow> s
             | Some textPart \<Rightarrow>
                 (case part_text textPart of
                    None \<Rightarrow> s
                  | Some txt \<Rightarrow>
                      (case text_command txt of
                         None \<Rightarrow> s
                       | Some cmd \<Rightarrow> publish_command cmd s)))
          else s
      | _ \<Rightarrow> s)"

text \<open>
  Lines 197-218 after the text branch: with audio the handler suspends on the decoding,
  without it the interruption flag is tested at once.
\<close>

definition audio_branch :: "real \<Rightarrow> message \<Rightarrow> app \<Rightarrow> app" where
  "audio_branch currentTime m s =
     (case audioData m of
        Inl err \<Rightarrow> s
      | Inr d \<Rightarrow>
          if d \<noteq> None \<and> d \<noteq> Some []
          then (let s1 = audio_begin currentTime s
                in s1\<lparr> pendingDecodes := pendingDecodes s1 @
                         [Some \<lparr> pd_interrupted = interrupted m \<rparr>] \<rparr>)
          else if interrupted m then interrupted_branch s
          else s)"

text \<open>
  \<^verbatim>\<open>onmessage\<close>, lines 161-219, for transport \<open>k\<close> with its
  \<^verbatim>\<open>sessionIsMouseMode\<close>, at output-clock time \<open>currentTime\<close>. The first
  \<^verbatim>\<open>set_mouse_control\<close> call ends the handler; its acknowledgement is sent from a
  \<^verbatim>\<open>then\<close> callback, which runs once \<^verbatim>\<open>applyMouseMode\<close> has returned.
  Destructuring absent \<^verbatim>\<open>args\<close> throws before anything is done.
\<close>

definition onmessage :: "nat \<Rightarrow> bool \<Rightarrow> real \<Rightarrow> message \<Rightarrow> app \<Rightarrow> app" where
  "onmessage k sessionIsMouseMode currentTime m s =
     (case (case toolCall m of
              None \<Rightarrow> None
            | Some functionCalls \<Rightarrow>
                find (\<lambda>fc. fc_name fc = Some ''set_mouse_control'') functionCalls) of
        Some fc \<Rightarrow>
          (case fc_args fc of
             None \<Rightarrow> s
           | Some enabled \<Rightarrow>
               (let s1 = applyMouseMode enabled s
                in s1\<lparr> sendCalls := sendCalls s1 @
                     [(k, ToolResponse (fc_id fc) ''set_mouse_control''
                            (''Mouse mode '' @ (if enabled then ''activated'' else ''deactivated'')))] \<rparr>))
      | None \<Rightarrow> audio_branch currentTime m (text_branch sessionIsMouseMode m s))"

text \<open>
  The decoding settles. Decoded: lines 202-211 schedule the buffer, then the interruption
  flag of the message is tested. Failed: the handler's promise rejects and nothing else
  of it runs.
\<close>

definition decode_resolved :: "pending_decode \<Rightarrow> AudioBuffer option \<Rightarrow> app \<Rightarrow> app" where
  "decode_resolved pd result s =
     (case result of
        None \<Rightarrow> s
      | Some audioBuffer \<Rightarrow>
          (let s1 = audio_scheduled audioBuffer s
           in if pd_interrupted pd then interrupted_branch s1 else s1))"

section \<open>Timers\<close>

text \<open>
  The callbacks given to \<^verbatim>\<open>setTimeout\<close>: line 190 clears the command, line 78
  restarts the session.
\<close>

fun fire_timeout :: "timeout_action \<Rightarrow> app \<Rightarrow> app" where
  "fire_timeout ClearLastCommand s = s\<lparr> lastCommand := None \<rparr>"
| "fire_timeout (RestartSession withVisual nextInstruction enabled) s =
     startSession withVisual (Some nextInstruction) (Some enabled) s"

text \<open>
  \<open>dt\<close> milliseconds pass: the timeouts that are due are removed and their callbacks
  run, earliest first and in the order they were set when due together.
\<close>

definition elapse :: "nat \<Rightarrow> app \<Rightarrow> app" where
  "elapse dt s =
     (let t = clock s + dt;
          due = sort_key fst (filter (\<lambda>x. fst x \<le> t) (timeouts s));
          s1 = s\<lparr> clock := t, timeouts := filter (\<lambda>x. \<not> fst x \<le> t) (timeouts s) \<rparr>
      in fold (\<lambda>x. fire_timeout (snd x)) due s1)"

section \<open>The event loop\<close>

datatype event =
    KeyDown string
  | ClickCall
  | ClickMute
  | ClickCamera
  | ClickScreenShare
  | ClickMouseMode
  | MicrophoneResolved nat bool
  | ConnectResolved nat bool
  | OnMessage nat real message
  | OnError nat
  | OnClose nat
  | DecodeResolved nat "AudioBuffer option"
  | SourceEnded nat
  | AcquisitionResolved nat bool
  | TrackEnded
  | AudioProcess nat "real list"
  | Elapse nat

text \<open>Taking a suspended call out of its queue.\<close>

definition take_pending :: "nat \<Rightarrow> 'a option list \<Rightarrow> 'a option" where
  "take_pending j ps = (if j < length ps then ps ! j else None)"

text \<open>
  One turn of the event loop. An event that cannot occur in the state (a continuation
  that is not suspended, a callback of a transport or node that does not exist) leaves
  the state as it is.
\<close>

fun step :: "event \<Rightarrow> app \<Rightarrow> app" where
  "step (KeyDown e_key) s = handleKeyDown e_key s"
| "step ClickCall s = call_button s"
| "step ClickMute s = toggle_muted s"
| "step ClickCamera s = toggleCamera False s"
| "step ClickScreenShare s = toggleScreenShare False s"
| "step ClickMouseMode s = toggleMouseMode s"
| "step (MicrophoneResolved j granted) s =
     (case take_pending j (pendingStarts s) of
        None \<Rightarrow> s
      | Some ps \<Rightarrow>
          microphone_resolved ps granted (s\<lparr> pendingStarts := (pendingStarts s)[j := None] \<rparr>))"
| "step (ConnectResolved k opened) s =
     (if k < length (transports s) \<and> t_state (transports s ! k) = Pending
      then connect_resolved k (transports s ! k) opened s else s)"
| "step (OnMessage k currentTime m) s =
     (if k < length (transports s) \<and> t_state (transports s ! k) = Open
      then onmessage k (t_sessionIsMouseMode (transports s ! k)) currentTime m s else s)"
| "step (OnError k) s = stopSession s"
| "step (OnClose k) s = stopSession (s\<lparr> transports := close_transport k (transports s) \<rparr>)"
| "step (DecodeResolved j result) s =
     (case take_pending j (pendingDecodes s) of
        None \<Rightarrow> s
      | Some pd \<Rightarrow>
          decode_resolved pd result (s\<lparr> pendingDecodes := (pendingDecodes s)[j := None] \<rparr>))"
| "step (SourceEnded i) s = (if i < length (bufferSources s) then source_onended i s else s)"
| "step (AcquisitionResolved j granted) s =
     (case take_pending j (pendingMedia s) of
        None \<Rightarrow> s
      | Some r \<Rightarrow>
          (let s1 = s\<lparr> pendingMedia := (pendingMedia s)[j := None] \<rparr>
           in if granted then acquisition_resolved r s1 else acquisition_rejected r s1))"
| "step TrackEnded s = (if videoSrcObject s \<noteq> None then track_onended s else s)"
| "step (AudioProcess n inputData) s =
     (if n < length (audioNodes s) \<and> processor_connected (audioNodes s ! n)
      then onaudioprocess (nodes_session (audioNodes s ! n)) inputData s else s)"
| "step (Elapse dt) s = elapse dt s"

definition run :: "event list \<Rightarrow> app \<Rightarrow> app" where
  "run es s = fold step es s"

text \<open>The sessions that are open at once.\<close>

definition open_sessions :: "app \<Rightarrow> nat" where
  "open_sessions s = length (filter (\<lambda>tr. t_state tr = Open) (transports s))"

section \<open>Predicates used in the statements\<close>








section \<open>Example inputs\<close>



text \<open>
  A connected session with the camera streaming: Enter is pressed, the microphone is
  granted, the transport opens, the camera button is clicked and the camera is granted.
\<close>

definition connected_example :: app where
  "connected_example =
     run [KeyDown ''Enter'', MicrophoneResolved 0 True, ConnectResolved 0 True,
          ClickCamera, AcquisitionResolved 0 True] initial_app"


text \<open>The camera button clicked twice before either request is answered.\<close>

definition rapid_toggle_example :: app where
  "rapid_toggle_example = run [ClickCamera, ClickCamera] initial_app"

text \<open>The connected session with the microphone muted by the M key.\<close>

definition muted_example :: app where
  "muted_example = handleKeyDown ''m'' connected_example"

text \<open>Enter pressed twice while the first connection is still being set up.\<close>

definition double_enter_events :: "event list" where
  "double_enter_events =
     [KeyDown ''Enter'', KeyDown ''Enter'', MicrophoneResolved 0 True,
      MicrophoneResolved 1 True, ConnectResolved 0 True, ConnectResolved 1 True]"

text \<open>The three texts of the command-parsing examples.\<close>

definition move_command_text :: string where
  "move_command_text =
     ''{'' @ [CHR 0x22] @ ''action'' @ [CHR 0x22] @ '':'' @ [CHR 0x22] @ ''move'' @ [CHR 0x22] @
     '','' @ [CHR 0x22] @ ''direction'' @ [CHR 0x22] @ '':'' @ [CHR 0x22] @ ''left'' @ [CHR 0x22] @
     '','' @ [CHR 0x22] @ ''value'' @ [CHR 0x22] @ '':10,'' @
     [CHR 0x22] @ ''application'' @ [CHR 0x22] @ '':'' @ [CHR 0x22, CHR 0x22] @ ''}''"

definition not_json_text :: string where
  "not_json_text = ''not json''"

definition none_command_text :: string where
  "none_command_text =
     ''{'' @ [CHR 0x22] @ ''action'' @ [CHR 0x22] @ '':'' @ [CHR 0x22] @ ''none'' @ [CHR 0x22] @ ''}''"

text \<open>A text that passes \<^verbatim>\<open>isJsonLike\<close> and is not JSON.\<close>

definition malformed_command_text :: string where
  "malformed_command_text =
     ''{'' @ [CHR 0x22] @ ''action'' @ [CHR 0x22] @ '': move}''"





section \<open>Frame and effect lemmas\<close>

lemma close_session_frame [simp]:
  "status (close_session s) = status s"
  "config (close_session s) = config s"
  "isUserTalking (close_session s) = isUserTalking s"
  "isModelTalking (close_session s) = isModelTalking s"
  "lastCommand (close_session s) = lastCommand s"
  "facingMode (close_session s) = facingMode s"
  "isMutedRef (close_session s) = isMutedRef s"
  "audioContextRef (close_session s) = audioContextRef s"
  "audioNodesRef (close_session s) = audioNodesRef s"
  "nextStartTimeRef (close_session s) = nextStartTimeRef s"
  "audioSourcesRef (close_session s) = audioSourcesRef s"
  "videoSrcObject (close_session s) = videoSrcObject s"
  "frameIntervalRef (close_session s) = frameIntervalRef s"
  "mediaRequestRef (close_session s) = mediaRequestRef s"
  "audioNodes (close_session s) = audioNodes s"
  "bufferSources (close_session s) = bufferSources s"
  "streams (close_session s) = streams s"
  "intervals (close_session s) = intervals s"
  "timeouts (close_session s) = timeouts s"
  "clock (close_session s) = clock s"
  "sendCalls (close_session s) = sendCalls s"
  "hasGetUserMedia (close_session s) = hasGetUserMedia s"
  "pendingStarts (close_session s) = pendingStarts s"
  "pendingMedia (close_session s) = pendingMedia s"
  "pendingDecodes (close_session s) = pendingDecodes s"
  by (simp_all add: close_session_def split: option.splits)

lemma disconnect_audio_nodes_frame [simp]:
  "status (disconnect_audio_nodes s) = status s"
  "config (disconnect_audio_nodes s) = config s"
  "isUserTalking (disconnect_audio_nodes s) = isUserTalking s"
  "isModelTalking (disconnect_audio_nodes s) = isModelTalking s"
  "lastCommand (disconnect_audio_nodes s) = lastCommand s"
  "facingMode (disconnect_audio_nodes s) = facingMode s"
  "isMutedRef (disconnect_audio_nodes s) = isMutedRef s"
  "sessionRef (disconnect_audio_nodes s) = sessionRef s"
  "sessionPromiseRef (disconnect_audio_nodes s) = sessionPromiseRef s"
  "audioContextRef (disconnect_audio_nodes s) = audioContextRef s"
  "audioNodesRef (disconnect_audio_nodes s) = audioNodesRef s"
  "nextStartTimeRef (disconnect_audio_nodes s) = nextStartTimeRef s"
  "audioSourcesRef (disconnect_audio_nodes s) = audioSourcesRef s"
  "videoSrcObject (disconnect_audio_nodes s) = videoSrcObject s"
  "frameIntervalRef (disconnect_audio_nodes s) = frameIntervalRef s"
  "mediaRequestRef (disconnect_audio_nodes s) = mediaRequestRef s"
  "transports (disconnect_audio_nodes s) = transports s"
  "bufferSources (disconnect_audio_nodes s) = bufferSources s"
  "streams (disconnect_audio_nodes s) = streams s"
  "intervals (disconnect_audio_nodes s) = intervals s"
  "timeouts (disconnect_audio_nodes s) = timeouts s"
  "clock (disconnect_audio_nodes s) = clock s"
  "sendCalls (disconnect_audio_nodes s) = sendCalls s"
  "hasGetUserMedia (disconnect_audio_nodes s) = hasGetUserMedia s"
  "pendingStarts (disconnect_audio_nodes s) = pendingStarts s"
  "pendingMedia (disconnect_audio_nodes s) = pendingMedia s"
  "pendingDecodes (disconnect_audio_nodes s) = pendingDecodes s"
  by (simp_all add: disconnect_audio_nodes_def split: option.splits)

lemma stop_playback_frame [simp]:
  "status (stop_playback s) = status s"
  "config (stop_playback s) = config s"
  "isUserTalking (stop_playback s) = isUserTalking s"
  "isModelTalking (stop_playback s) = isModelTalking s"
  "lastCommand (stop_playback s) = lastCommand s"
  "facingMode (stop_playback s) = facingMode s"
  "isMutedRef (stop_playback s) = isMutedRef s"
  "sessionRef (stop_playback s) = sessionRef s"
  "sessionPromiseRef (stop_playback s) = sessionPromiseRef s"
  "audioContextRef (stop_playback s) = audioContextRef s"
  "audioNodesRef (stop_playback s) = audioNodesRef s"
  "nextStartTimeRef (stop_playback s) = nextStartTimeRef s"
  "videoSrcObject (stop_playback s) = videoSrcObject s"
  "frameIntervalRef (stop_playback s) = frameIntervalRef s"
  "mediaRequestRef (stop_playback s) = mediaRequestRef s"
  "transports (stop_playback s) = transports s"
  "audioNodes (stop_playback s) = audioNodes s"
  "streams (stop_playback s) = streams s"
  "intervals (stop_playback s) = intervals s"
  "timeouts (stop_playback s) = timeouts s"
  "clock (stop_playback s) = clock s"
  "sendCalls (stop_playback s) = sendCalls s"
  "hasGetUserMedia (stop_playback s) = hasGetUserMedia s"
  "pendingStarts (stop_playback s) = pendingStarts s"
  "pendingMedia (stop_playback s) = pendingMedia s"
  "pendingDecodes (stop_playback s) = pendingDecodes s"
  by (simp_all add: stop_playback_def)

lemma release_video_frame [simp]:
  "status (release_video s) = status s"
  "config (release_video s) = config s"
  "isUserTalking (release_video s) = isUserTalking s"
  "isModelTalking (release_video s) = isModelTalking s"
  "lastCommand (release_video s) = lastCommand s"
  "facingMode (release_video s) = facingMode s"
  "isMutedRef (release_video s) = isMutedRef s"
  "sessionRef (release_video s) = sessionRef s"
  "sessionPromiseRef (release_video s) = sessionPromiseRef s"
  "audioContextRef (release_video s) = audioContextRef s"
  "audioNodesRef (release_video s) = audioNodesRef s"
  "nextStartTimeRef (release_video s) = nextStartTimeRef s"
  "audioSourcesRef (release_video s) = audioSourcesRef s"
  "frameIntervalRef (release_video s) = frameIntervalRef s"
  "mediaRequestRef (release_video s) = mediaRequestRef s"
  "transports (release_video s) = transports s"
  "audioNodes (release_video s) = audioNodes s"
  "bufferSources (release_video s) = bufferSources s"
  "intervals (release_video s) = intervals s"
  "timeouts (release_video s) = timeouts s"
  "clock (release_video s) = clock s"
  "sendCalls (release_video s) = sendCalls s"
  "hasGetUserMedia (release_video s) = hasGetUserMedia s"
  "pendingStarts (release_video s) = pendingStarts s"
  "pendingMedia (release_video s) = pendingMedia s"
  "pendingDecodes (release_video s) = pendingDecodes s"
  by (simp_all add: release_video_def split: option.splits)

lemma clear_frame_interval_frame [simp]:
  "status (clear_frame_interval s) = status s"
  "config (clear_frame_interval s) = config s"
  "isUserTalking (clear_frame_interval s) = isUserTalking s"
  "isModelTalking (clear_frame_interval s) = isModelTalking s"
  "lastCommand (clear_frame_interval s) = lastCommand s"
  "facingMode (clear_frame_interval s) = facingMode s"
  "isMutedRef (clear_frame_interval s) = isMutedRef s"
  "sessionRef (clear_frame_interval s) = sessionRef s"
  "sessionPromiseRef (clear_frame_interval s) = sessionPromiseRef s"
  "audioContextRef (clear_frame_interval s) = audioContextRef s"
  "audioNodesRef (clear_frame_interval s) = audioNodesRef s"
  "nextStartTimeRef (clear_frame_interval s) = nextStartTimeRef s"
  "audioSourcesRef (clear_frame_interval s) = audioSourcesRef s"
  "videoSrcObject (clear_frame_interval s) = videoSrcObject s"
  "mediaRequestRef (clear_frame_interval s) = mediaRequestRef s"
  "transports (clear_frame_interval s) = transports s"
  "audioNodes (clear_frame_interval s) = audioNodes s"
  "bufferSources (clear_frame_interval s) = bufferSources s"
  "streams (clear_frame_interval s) = streams s"
  "timeouts (clear_frame_interval s) = timeouts s"
  "clock (clear_frame_interval s) = clock s"
  "sendCalls (clear_frame_interval s) = sendCalls s"
  "hasGetUserMedia (clear_frame_interval s) = hasGetUserMedia s"
  "pendingStarts (clear_frame_interval s) = pendingStarts s"
  "pendingMedia (clear_frame_interval s) = pendingMedia s"
  "pendingDecodes (clear_frame_interval s) = pendingDecodes s"
  by (simp_all add: clear_frame_interval_def split: option.splits)

lemma reset_published_frame [simp]:
  "lastCommand (reset_published s) = lastCommand s"
  "facingMode (reset_published s) = facingMode s"
  "isMutedRef (reset_published s) = isMutedRef s"
  "sessionRef (reset_published s) = sessionRef s"
  "sessionPromiseRef (reset_published s) = sessionPromiseRef s"
  "audioContextRef (reset_published s) = audioContextRef s"
  "audioNodesRef (reset_published s) = audioNodesRef s"
  "nextStartTimeRef (reset_published s) = nextStartTimeRef s"
  "audioSourcesRef (reset_published s) = audioSourcesRef s"
  "videoSrcObject (reset_published s) = videoSrcObject s"
  "frameIntervalRef (reset_published s) = frameIntervalRef s"
  "mediaRequestRef (reset_published s) = mediaRequestRef s"
  "transports (reset_published s) = transports s"
  "audioNodes (reset_published s) = audioNodes s"
  "bufferSources (reset_published s) = bufferSources s"
  "streams (reset_published s) = streams s"
  "intervals (reset_published s) = intervals s"
  "timeouts (reset_published s) = timeouts s"
  "clock (reset_published s) = clock s"
  "sendCalls (reset_published s) = sendCalls s"
  "hasGetUserMedia (reset_published s) = hasGetUserMedia s"
  "pendingStarts (reset_published s) = pendingStarts s"
  "pendingMedia (reset_published s) = pendingMedia s"
  "pendingDecodes (reset_published s) = pendingDecodes s"
  by (simp_all add: reset_published_def)

lemma stopMediaTracks_frame [simp]:
  "status (stopMediaTracks s) = status s"
  "config (stopMediaTracks s) = config s"
  "isUserTalking (stopMediaTracks s) = isUserTalking s"
  "isModelTalking (stopMediaTracks s) = isModelTalking s"
  "lastCommand (stopMediaTracks s) = lastCommand s"
  "facingMode (stopMediaTracks s) = facingMode s"
  "isMutedRef (stopMediaTracks s) = isMutedRef s"
  "sessionRef (stopMediaTracks s) = sessionRef s"
  "sessionPromiseRef (stopMediaTracks s) = sessionPromiseRef s"
  "audioContextRef (stopMediaTracks s) = audioContextRef s"
  "audioNodesRef (stopMediaTracks s) = audioNodesRef s"
  "nextStartTimeRef (stopMediaTracks s) = nextStartTimeRef s"
  "audioSourcesRef (stopMediaTracks s) = audioSourcesRef s"
  "mediaRequestRef (stopMediaTracks s) = mediaRequestRef s"
  "transports (stopMediaTracks s) = transports s"
  "audioNodes (stopMediaTracks s) = audioNodes s"
  "bufferSources (stopMediaTracks s) = bufferSources s"
  "timeouts (stopMediaTracks s) = timeouts s"
  "clock (stopMediaTracks s) = clock s"
  "sendCalls (stopMediaTracks s) = sendCalls s"
  "hasGetUserMedia (stopMediaTracks s) = hasGetUserMedia s"
  "pendingStarts (stopMediaTracks s) = pendingStarts s"
  "pendingMedia (stopMediaTracks s) = pendingMedia s"
  "pendingDecodes (stopMediaTracks s) = pendingDecodes s"
  by (simp_all add: stopMediaTracks_def)

lemma stopSession_frame [simp]:
  "lastCommand (stopSession s) = lastCommand s"
  "facingMode (stopSession s) = facingMode s"
  "isMutedRef (stopSession s) = isMutedRef s"
  "audioContextRef (stopSession s) = audioContextRef s"
  "audioNodesRef (stopSession s) = audioNodesRef s"
  "nextStartTimeRef (stopSession s) = nextStartTimeRef s"
  "mediaRequestRef (stopSession s) = mediaRequestRef s"
  "timeouts (stopSession s) = timeouts s"
  "clock (stopSession s) = clock s"
  "sendCalls (stopSession s) = sendCalls s"
  "hasGetUserMedia (stopSession s) = hasGetUserMedia s"
  "pendingStarts (stopSession s) = pendingStarts s"
  "pendingMedia (stopSession s) = pendingMedia s"
  "pendingDecodes (stopSession s) = pendingDecodes s"
  by (simp_all add: stopSession_def)

lemma stop_source_length [simp]: "length (stop_source i bs) = length bs"
  by (simp add: stop_source_def)

lemma stop_sources_length [simp]: "length (stop_sources ids bs) = length bs"
  unfolding stop_sources_def by (induction ids arbitrary: bs) simp_all

lemma stop_sources_Nil [simp]: "stop_sources [] bs = bs"
  by (simp add: stop_sources_def)




lemma close_transport_length [simp]: "length (close_transport i ts) = length ts"
  by (simp add: close_transport_def)


lemma disconnect_nodes_length [simp]: "length (disconnect_nodes n ns) = length ns"
  by (simp add: disconnect_nodes_def)

lemma disconnect_nodes_twice [simp]:
  "disconnect_nodes n (disconnect_nodes n ns) = disconnect_nodes n ns"
  by (simp add: disconnect_nodes_def)


lemma stop_tracks_length [simp]: "length (stop_tracks i ss) = length ss"
  by (simp add: stop_tracks_def)


lemma clearInterval_length [simp]: "length (clearInterval i xs) = length xs"
  by (simp add: clearInterval_def)


lemma close_session_effect [simp]:
  "sessionRef (close_session s) = None"
  "sessionPromiseRef (close_session s) = None"
  "transports (close_session s) =
     (case sessionRef s of Some i \<Rightarrow> close_transport i (transports s) | None \<Rightarrow> transports s)"
  by (simp_all add: close_session_def split: option.splits)

lemma disconnect_audio_nodes_effect [simp]:
  "audioNodes (disconnect_audio_nodes s) =
     (case audioNodesRef s of Some n \<Rightarrow> disconnect_nodes n (audioNodes s) | None \<Rightarrow> audioNodes s)"
  by (simp add: disconnect_audio_nodes_def split: option.splits)

lemma stop_playback_effect [simp]:
  "audioSourcesRef (stop_playback s) = []"
  "bufferSources (stop_playback s) = stop_sources (audioSourcesRef s) (bufferSources s)"
  by (simp_all add: stop_playback_def)

lemma release_video_effect [simp]:
  "videoSrcObject (release_video s) = None"
  "streams (release_video s) =
     (case videoSrcObject s of Some v \<Rightarrow> stop_tracks v (streams s) | None \<Rightarrow> streams s)"
  by (simp_all add: release_video_def split: option.splits)

lemma clear_frame_interval_effect [simp]:
  "frameIntervalRef (clear_frame_interval s) = None"
  "intervals (clear_frame_interval s) =
     (case frameIntervalRef s of Some i \<Rightarrow> clearInterval i (intervals s) | None \<Rightarrow> intervals s)"
  by (simp_all add: clear_frame_interval_def split: option.splits)

lemma reset_published_effect [simp]:
  "status (reset_published s) = IDLE"
  "isUserTalking (reset_published s) = False"
  "isModelTalking (reset_published s) = False"
  "config (reset_published s) = (config s)\<lparr> isCameraEnabled := False, isScreenSharing := False \<rparr>"
  by (simp_all add: reset_published_def)

lemma stopMediaTracks_effect [simp]:
  "videoSrcObject (stopMediaTracks s) = None"
  "frameIntervalRef (stopMediaTracks s) = None"
  "streams (stopMediaTracks s) =
     (case videoSrcObject s of Some v \<Rightarrow> stop_tracks v (streams s) | None \<Rightarrow> streams s)"
  "intervals (stopMediaTracks s) =
     (case frameIntervalRef s of Some i \<Rightarrow> clearInterval i (intervals s) | None \<Rightarrow> intervals s)"
  by (simp_all add: stopMediaTracks_def split: option.splits)

lemma stopSession_effect [simp]:
  "sessionRef (stopSession s) = None"
  "sessionPromiseRef (stopSession s) = None"
  "audioSourcesRef (stopSession s) = []"
  "videoSrcObject (stopSession s) = None"
  "frameIntervalRef (stopSession s) = None"
  "status (stopSession s) = IDLE"
  "isUserTalking (stopSession s) = False"
  "isModelTalking (stopSession s) = False"
  "config (stopSession s) = (config s)\<lparr> isCameraEnabled := False, isScreenSharing := False \<rparr>"
  "transports (stopSession s) =
     (case sessionRef s of Some i \<Rightarrow> close_transport i (transports s) | None \<Rightarrow> transports s)"
  "audioNodes (stopSession s) =
     (case audioNodesRef s of Some n \<Rightarrow> disconnect_nodes n (audioNodes s) | None \<Rightarrow> audioNodes s)"
  "bufferSources (stopSession s) = stop_sources (audioSourcesRef s) (bufferSources s)"
  "streams (stopSession s) =
     (case videoSrcObject s of Some v \<Rightarrow> stop_tracks v (streams s) | None \<Rightarrow> streams s)"
  "intervals (stopSession s) =
     (case frameIntervalRef s of Some i \<Rightarrow> clearInterval i (intervals s) | None \<Rightarrow> intervals s)"
  by (simp_all add: stopSession_def split: option.splits)








lemma audio_begin_frame [simp]:
  "status (audio_begin c s) = status s"
  "config (audio_begin c s) = config s"
  "isUserTalking (audio_begin c s) = isUserTalking s"
  "lastCommand (audio_begin c s) = lastCommand s"
  "facingMode (audio_begin c s) = facingMode s"
  "isMutedRef (audio_begin c s) = isMutedRef s"
  "sessionRef (audio_begin c s) = sessionRef s"
  "sessionPromiseRef (audio_begin c s) = sessionPromiseRef s"
  "audioContextRef (audio_begin c s) = audioContextRef s"
  "audioNodesRef (audio_begin c s) = audioNodesRef s"
  "audioSourcesRef (audio_begin c s) = audioSourcesRef s"
  "videoSrcObject (audio_begin c s) = videoSrcObject s"
  "frameIntervalRef (audio_begin c s) = frameIntervalRef s"
  "mediaRequestRef (audio_begin c s) = mediaRequestRef s"
  "transports (audio_begin c s) = transports s"
  "audioNodes (audio_begin c s) = audioNodes s"
  "bufferSources (audio_begin c s) = bufferSources s"
  "streams (audio_begin c s) = streams s"
  "intervals (audio_begin c s) = intervals s"
  "timeouts (audio_begin c s) = timeouts s"
  "clock (audio_begin c s) = clock s"
  "sendCalls (audio_begin c s) = sendCalls s"
  "hasGetUserMedia (audio_begin c s) = hasGetUserMedia s"
  "pendingStarts (audio_begin c s) = pendingStarts s"
  "pendingMedia (audio_begin c s) = pendingMedia s"
  "pendingDecodes (audio_begin c s) = pendingDecodes s"
  by (simp_all add: audio_begin_def)

lemma audio_scheduled_frame [simp]:
  "status (audio_scheduled b s) = status s"
  "config (audio_scheduled b s) = config s"
  "isUserTalking (audio_scheduled b s) = isUserTalking s"
  "isModelTalking (audio_scheduled b s) = isModelTalking s"
  "lastCommand (audio_scheduled b s) = lastCommand s"
  "facingMode (audio_scheduled b s) = facingMode s"
  "isMutedRef (audio_scheduled b s) = isMutedRef s"
  "sessionRef (audio_scheduled b s) = sessionRef s"
  "sessionPromiseRef (audio_scheduled b s) = sessionPromiseRef s"
  "audioContextRef (audio_scheduled b s) = audioContextRef s"
  "audioNodesRef (audio_scheduled b s) = audioNodesRef s"
  "videoSrcObject (audio_scheduled b s) = videoSrcObject s"
  "frameIntervalRef (audio_scheduled b s) = frameIntervalRef s"
  "mediaRequestRef (audio_scheduled b s) = mediaRequestRef s"
  "transports (audio_scheduled b s) = transports s"
  "audioNodes (audio_scheduled b s) = audioNodes s"
  "streams (audio_scheduled b s) = streams s"
  "intervals (audio_scheduled b s) = intervals s"
  "timeouts (audio_scheduled b s) = timeouts s"
  "clock (audio_scheduled b s) = clock s"
  "sendCalls (audio_scheduled b s) = sendCalls s"
  "hasGetUserMedia (audio_scheduled b s) = hasGetUserMedia s"
  "pendingStarts (audio_scheduled b s) = pendingStarts s"
  "pendingMedia (audio_scheduled b s) = pendingMedia s"
  "pendingDecodes (audio_scheduled b s) = pendingDecodes s"
  by (simp_all add: audio_scheduled_def)

lemma source_onended_frame [simp]:
  "status (source_onended i s) = status s"
  "config (source_onended i s) = config s"
  "isUserTalking (source_onended i s) = isUserTalking s"
  "lastCommand (source_onended i s) = lastCommand s"
  "facingMode (source_onended i s) = facingMode s"
  "isMutedRef (source_onended i s) = isMutedRef s"
  "sessionRef (source_onended i s) = sessionRef s"
  "sessionPromiseRef (source_onended i s) = sessionPromiseRef s"
  "audioContextRef (source_onended i s) = audioContextRef s"
  "audioNodesRef (source_onended i s) = audioNodesRef s"
  "nextStartTimeRef (source_onended i s) = nextStartTimeRef s"
  "videoSrcObject (source_onended i s) = videoSrcObject s"
  "frameIntervalRef (source_onended i s) = frameIntervalRef s"
  "mediaRequestRef (source_onended i s) = mediaRequestRef s"
  "transports (source_onended i s) = transports s"
  "audioNodes (source_onended i s) = audioNodes s"
  "bufferSources (source_onended i s) = bufferSources s"
  "streams (source_onended i s) = streams s"
  "intervals (source_onended i s) = intervals s"
  "timeouts (source_onended i s) = timeouts s"
  "clock (source_onended i s) = clock s"
  "sendCalls (source_onended i s) = sendCalls s"
  "hasGetUserMedia (source_onended i s) = hasGetUserMedia s"
  "pendingStarts (source_onended i s) = pendingStarts s"
  "pendingMedia (source_onended i s) = pendingMedia s"
  "pendingDecodes (source_onended i s) = pendingDecodes s"
  by (simp_all add: source_onended_def Let_def)

lemma interrupted_branch_frame [simp]:
  "status (interrupted_branch s) = status s"
  "config (interrupted_branch s) = config s"
  "isUserTalking (interrupted_branch s) = isUserTalking s"
  "lastCommand (interrupted_branch s) = lastCommand s"
  "facingMode (interrupted_branch s) = facingMode s"
  "isMutedRef (interrupted_branch s) = isMutedRef s"
  "sessionRef (interrupted_branch s) = sessionRef s"
  "sessionPromiseRef (interrupted_branch s) = sessionPromiseRef s"
  "audioContextRef (interrupted_branch s) = audioContextRef s"
  "audioNodesRef (interrupted_branch s) = audioNodesRef s"
  "videoSrcObject (interrupted_branch s) = videoSrcObject s"
  "frameIntervalRef (interrupted_branch s) = frameIntervalRef s"
  "mediaRequestRef (interrupted_branch s) = mediaRequestRef s"
  "transports (interrupted_branch s) = transports s"
  "audioNodes (interrupted_branch s) = audioNodes s"
  "streams (interrupted_branch s) = streams s"
  "intervals (interrupted_branch s) = intervals s"
  "timeouts (interrupted_branch s) = timeouts s"
  "clock (interrupted_branch s) = clock s"
  "sendCalls (interrupted_branch s) = sendCalls s"
  "hasGetUserMedia (interrupted_branch s) = hasGetUserMedia s"
  "pendingStarts (interrupted_branch s) = pendingStarts s"
  "pendingMedia (interrupted_branch s) = pendingMedia s"
  "pendingDecodes (interrupted_branch s) = pendingDecodes s"
  by (simp_all add: interrupted_branch_def)

lemma startMediaStreaming_frame [simp]:
  "status (startMediaStreaming v s) = status s"
  "config (startMediaStreaming v s) = config s"
  "isUserTalking (startMediaStreaming v s) = isUserTalking s"
  "isModelTalking (startMediaStreaming v s) = isModelTalking s"
  "lastCommand (startMediaStreaming v s) = lastCommand s"
  "facingMode (startMediaStreaming v s) = facingMode s"
  "isMutedRef (startMediaStreaming v s) = isMutedRef s"
  "sessionRef (startMediaStreaming v s) = sessionRef s"
  "sessionPromiseRef (startMediaStreaming v s) = sessionPromiseRef s"
  "audioContextRef (startMediaStreaming v s) = audioContextRef s"
  "audioNodesRef (startMediaStreaming v s) = audioNodesRef s"
  "nextStartTimeRef (startMediaStreaming v s) = nextStartTimeRef s"
  "audioSourcesRef (startMediaStreaming v s) = audioSourcesRef s"
  "mediaRequestRef (startMediaStreaming v s) = mediaRequestRef s"
  "transports (startMediaStreaming v s) = transports s"
  "audioNodes (startMediaStreaming v s) = audioNodes s"
  "bufferSources (startMediaStreaming v s) = bufferSources s"
  "streams (startMediaStreaming v s) = streams s"
  "timeouts (startMediaStreaming v s) = timeouts s"
  "clock (startMediaStreaming v s) = clock s"
  "sendCalls (startMediaStreaming v s) = sendCalls s"
  "hasGetUserMedia (startMediaStreaming v s) = hasGetUserMedia s"
  "pendingStarts (startMediaStreaming v s) = pendingStarts s"
  "pendingMedia (startMediaStreaming v s) = pendingMedia s"
  "pendingDecodes (startMediaStreaming v s) = pendingDecodes s"
  by (simp_all add: startMediaStreaming_def Let_def split: option.splits)

lemma track_onended_frame [simp]:
  "status (track_onended s) = status s"
  "isUserTalking (track_onended s) = isUserTalking s"
  "isModelTalking (track_onended s) = isModelTalking s"
  "lastCommand (track_onended s) = lastCommand s"
  "facingMode (track_onended s) = facingMode s"
  "isMutedRef (track_onended s) = isMutedRef s"
  "sessionRef (track_onended s) = sessionRef s"
  "sessionPromiseRef (track_onended s) = sessionPromiseRef s"
  "audioContextRef (track_onended s) = audioContextRef s"
  "audioNodesRef (track_onended s) = audioNodesRef s"
  "nextStartTimeRef (track_onended s) = nextStartTimeRef s"
  "audioSourcesRef (track_onended s) = audioSourcesRef s"
  "mediaRequestRef (track_onended s) = mediaRequestRef s"
  "transports (track_onended s) = transports s"
  "audioNodes (track_onended s) = audioNodes s"
  "bufferSources (track_onended s) = bufferSources s"
  "timeouts (track_onended s) = timeouts s"
  "clock (track_onended s) = clock s"
  "sendCalls (track_onended s) = sendCalls s"
  "hasGetUserMedia (track_onended s) = hasGetUserMedia s"
  "pendingStarts (track_onended s) = pendingStarts s"
  "pendingMedia (track_onended s) = pendingMedia s"
  "pendingDecodes (track_onended s) = pendingDecodes s"
  by (simp_all add: track_onended_def Let_def)

lemma toggleCamera_frame [simp]:
  "status (toggleCamera f s) = status s"
  "isUserTalking (toggleCamera f s) = isUserTalking s"
  "isModelTalking (toggleCamera f s) = isModelTalking s"
  "lastCommand (toggleCamera f s) = lastCommand s"
  "facingMode (toggleCamera f s) = facingMode s"
  "isMutedRef (toggleCamera f s) = isMutedRef s"
  "sessionRef (toggleCamera f s) = sessionRef s"
  "sessionPromiseRef (toggleCamera f s) = sessionPromiseRef s"
  "audioContextRef (toggleCamera f s) = audioContextRef s"
  "audioNodesRef (toggleCamera f s) = audioNodesRef s"
  "nextStartTimeRef (toggleCamera f s) = nextStartTimeRef s"
  "audioSourcesRef (toggleCamera f s) = audioSourcesRef s"
  "transports (toggleCamera f s) = transports s"
  "audioNodes (toggleCamera f s) = audioNodes s"
  "bufferSources (toggleCamera f s) = bufferSources s"
  "timeouts (toggleCamera f s) = timeouts s"
  "clock (toggleCamera f s) = clock s"
  "sendCalls (toggleCamera f s) = sendCalls s"
  "hasGetUserMedia (toggleCamera f s) = hasGetUserMedia s"
  "pendingStarts (toggleCamera f s) = pendingStarts s"
  "pendingDecodes (toggleCamera f s) = pendingDecodes s"
  by (simp_all add: toggleCamera_def Let_def)

lemma toggleScreenShare_frame [simp]:
  "status (toggleScreenShare f s) = status s"
  "isUserTalking (toggleScreenShare f s) = isUserTalking s"
  "isModelTalking (toggleScreenShare f s) = isModelTalking s"
  "lastCommand (toggleScreenShare f s) = lastCommand s"
  "facingMode (toggleScreenShare f s) = facingMode s"
  "isMutedRef (toggleScreenShare f s) = isMutedRef s"
  "sessionRef (toggleScreenShare f s) = sessionRef s"
  "sessionPromiseRef (toggleScreenShare f s) = sessionPromiseRef s"
  "audioContextRef (toggleScreenShare f s) = audioContextRef s"
  "audioNodesRef (toggleScreenShare f s) = audioNodesRef s"
  "nextStartTimeRef (toggleScreenShare f s) = nextStartTimeRef s"
  "audioSourcesRef (toggleScreenShare f s) = audioSourcesRef s"
  "transports (toggleScreenShare f s) = transports s"
  "audioNodes (toggleScreenShare f s) = audioNodes s"
  "bufferSources (toggleScreenShare f s) = bufferSources s"
  "timeouts (toggleScreenShare f s) = timeouts s"
  "clock (toggleScreenShare f s) = clock s"
  "sendCalls (toggleScreenShare f s) = sendCalls s"
  "hasGetUserMedia (toggleScreenShare f s) = hasGetUserMedia s"
  "pendingStarts (toggleScreenShare f s) = pendingStarts s"
  "pendingDecodes (toggleScreenShare f s) = pendingDecodes s"
  by (simp_all add: toggleScreenShare_def Let_def)

lemma acquisition_resolved_frame [simp]:
  "status (acquisition_resolved r s) = status s"
  "isUserTalking (acquisition_resolved r s) = isUserTalking s"
  "isModelTalking (acquisition_resolved r s) = isModelTalking s"
  "lastCommand (acquisition_resolved r s) = lastCommand s"
  "facingMode (acquisition_resolved r s) = facingMode s"
  "isMutedRef (acquisition_resolved r s) = isMutedRef s"
  "sessionRef (acquisition_resolved r s) = sessionRef s"
  "sessionPromiseRef (acquisition_resolved r s) = sessionPromiseRef s"
  "audioContextRef (acquisition_resolved r s) = audioContextRef s"
  "audioNodesRef (acquisition_resolved r s) = audioNodesRef s"
  "nextStartTimeRef (acquisition_resolved r s) = nextStartTimeRef s"
  "audioSourcesRef (acquisition_resolved r s) = audioSourcesRef s"
  "mediaRequestRef (acquisition_resolved r s) = mediaRequestRef s"
  "transports (acquisition_resolved r s) = transports s"
  "audioNodes (acquisition_resolved r s) = audioNodes s"
  "bufferSources (acquisition_resolved r s) = bufferSources s"
  "timeouts (acquisition_resolved r s) = timeouts s"
  "clock (acquisition_resolved r s) = clock s"
  "sendCalls (acquisition_resolved r s) = sendCalls s"
  "hasGetUserMedia (acquisition_resolved r s) = hasGetUserMedia s"
  "pendingStarts (acquisition_resolved r s) = pendingStarts s"
  "pendingMedia (acquisition_resolved r s) = pendingMedia s"
  "pendingDecodes (acquisition_resolved r s) = pendingDecodes s"
  by (simp_all add: acquisition_resolved_def Let_def split: media_kind.splits)

lemma acquisition_rejected_frame [simp]:
  "status (acquisition_rejected r s) = status s"
  "isUserTalking (acquisition_rejected r s) = isUserTalking s"
  "isModelTalking (acquisition_rejected r s) = isModelTalking s"
  "lastCommand (acquisition_rejected r s) = lastCommand s"
  "facingMode (acquisition_rejected r s) = facingMode s"
  "isMutedRef (acquisition_rejected r s) = isMutedRef s"
  "sessionRef (acquisition_rejected r s) = sessionRef s"
  "sessionPromiseRef (acquisition_rejected r s) = sessionPromiseRef s"
  "audioContextRef (acquisition_rejected r s) = audioContextRef s"
  "audioNodesRef (acquisition_rejected r s) = audioNodesRef s"
  "nextStartTimeRef (acquisition_rejected r s) = nextStartTimeRef s"
  "audioSourcesRef (acquisition_rejected r s) = audioSourcesRef s"
  "videoSrcObject (acquisition_rejected r s) = videoSrcObject s"
  "frameIntervalRef (acquisition_rejected r s) = frameIntervalRef s"
  "mediaRequestRef (acquisition_rejected r s) = mediaRequestRef s"
  "transports (acquisition_rejected r s) = transports s"
  "audioNodes (acquisition_rejected r s) = audioNodes s"
  "bufferSources (acquisition_rejected r s) = bufferSources s"
  "streams (acquisition_rejected r s) = streams s"
  "intervals (acquisition_rejected r s) = intervals s"
  "timeouts (acquisition_rejected r s) = timeouts s"
  "clock (acquisition_rejected r s) = clock s"
  "sendCalls (acquisition_rejected r s) = sendCalls s"
  "hasGetUserMedia (acquisition_rejected r s) = hasGetUserMedia s"
  "pendingStarts (acquisition_rejected r s) = pendingStarts s"
  "pendingMedia (acquisition_rejected r s) = pendingMedia s"
  "pendingDecodes (acquisition_rejected r s) = pendingDecodes s"
  by (simp_all add: acquisition_rejected_def split: media_kind.splits)

lemma publish_command_frame [simp]:
  "status (publish_command c s) = status s"
  "config (publish_command c s) = config s"
  "isUserTalking (publish_command c s) = isUserTalking s"
  "isModelTalking (publish_command c s) = isModelTalking s"
  "facingMode (publish_command c s) = facingMode s"
  "isMutedRef (publish_command c s) = isMutedRef s"
  "sessionRef (publish_command c s) = sessionRef s"
  "sessionPromiseRef (publish_command c s) = sessionPromiseRef s"
  "audioContextRef (publish_command c s) = audioContextRef s"
  "audioNodesRef (publish_command c s) = audioNodesRef s"
  "nextStartTimeRef (publish_command c s) = nextStartTimeRef s"
  "audioSourcesRef (publish_command c s) = audioSourcesRef s"
  "videoSrcObject (publish_command c s) = videoSrcObject s"
  "frameIntervalRef (publish_command c s) = frameIntervalRef s"
  "mediaRequestRef (publish_command c s) = mediaRequestRef s"
  "transports (publish_command c s) = transports s"
  "audioNodes (publish_command c s) = audioNodes s"
  "bufferSources (publish_command c s) = bufferSources s"
  "streams (publish_command c s) = streams s"
  "intervals (publish_command c s) = intervals s"
  "clock (publish_command c s) = clock s"
  "sendCalls (publish_command c s) = sendCalls s"
  "hasGetUserMedia (publish_command c s) = hasGetUserMedia s"
  "pendingStarts (publish_command c s) = pendingStarts s"
  "pendingMedia (publish_command c s) = pendingMedia s"
  "pendingDecodes (publish_command c s) = pendingDecodes s"
  by (simp_all add: publish_command_def)

lemma startSession_frame [simp]:
  "config (startSession v i m s) = config s"
  "isUserTalking (startSession v i m s) = isUserTalking s"
  "isModelTalking (startSession v i m s) = isModelTalking s"
  "lastCommand (startSession v i m s) = lastCommand s"
  "facingMode (startSession v i m s) = facingMode s"
  "isMutedRef (startSession v i m s) = isMutedRef s"
  "sessionRef (startSession v i m s) = sessionRef s"
  "sessionPromiseRef (startSession v i m s) = sessionPromiseRef s"
  "audioNodesRef (startSession v i m s) = audioNodesRef s"
  "nextStartTimeRef (startSession v i m s) = nextStartTimeRef s"
  "audioSourcesRef (startSession v i m s) = audioSourcesRef s"
  "videoSrcObject (startSession v i m s) = videoSrcObject s"
  "frameIntervalRef (startSession v i m s) = frameIntervalRef s"
  "mediaRequestRef (startSession v i m s) = mediaRequestRef s"
  "transports (startSession v i m s) = transports s"
  "audioNodes (startSession v i m s) = audioNodes s"
  "bufferSources (startSession v i m s) = bufferSources s"
  "streams (startSession v i m s) = streams s"
  "intervals (startSession v i m s) = intervals s"
  "timeouts (startSession v i m s) = timeouts s"
  "clock (startSession v i m s) = clock s"
  "sendCalls (startSession v i m s) = sendCalls s"
  "hasGetUserMedia (startSession v i m s) = hasGetUserMedia s"
  "pendingMedia (startSession v i m s) = pendingMedia s"
  "pendingDecodes (startSession v i m s) = pendingDecodes s"
  by (simp_all add: startSession_def Let_def)

lemma microphone_resolved_frame [simp]:
  "config (microphone_resolved ps g s) = config s"
  "isUserTalking (microphone_resolved ps g s) = isUserTalking s"
  "isModelTalking (microphone_resolved ps g s) = isModelTalking s"
  "lastCommand (microphone_resolved ps g s) = lastCommand s"
  "facingMode (microphone_resolved ps g s) = facingMode s"
  "isMutedRef (microphone_resolved ps g s) = isMutedRef s"
  "sessionRef (microphone_resolved ps g s) = sessionRef s"
  "audioContextRef (microphone_resolved ps g s) = audioContextRef s"
  "audioNodesRef (microphone_resolved ps g s) = audioNodesRef s"
  "nextStartTimeRef (microphone_resolved ps g s) = nextStartTimeRef s"
  "audioSourcesRef (microphone_resolved ps g s) = audioSourcesRef s"
  "videoSrcObject (microphone_resolved ps g s) = videoSrcObject s"
  "frameIntervalRef (microphone_resolved ps g s) = frameIntervalRef s"
  "mediaRequestRef (microphone_resolved ps g s) = mediaRequestRef s"
  "audioNodes (microphone_resolved ps g s) = audioNodes s"
  "bufferSources (microphone_resolved ps g s) = bufferSources s"
  "streams (microphone_resolved ps g s) = streams s"
  "intervals (microphone_resolved ps g s) = intervals s"
  "timeouts (microphone_resolved ps g s) = timeouts s"
  "clock (microphone_resolved ps g s) = clock s"
  "sendCalls (microphone_resolved ps g s) = sendCalls s"
  "hasGetUserMedia (microphone_resolved ps g s) = hasGetUserMedia s"
  "pendingStarts (microphone_resolved ps g s) = pendingStarts s"
  "pendingMedia (microphone_resolved ps g s) = pendingMedia s"
  "pendingDecodes (microphone_resolved ps g s) = pendingDecodes s"
  by (simp_all add: microphone_resolved_def)

lemma onopen_frame [simp]:
  "isUserTalking (onopen k tr s) = isUserTalking s"
  "isModelTalking (onopen k tr s) = isModelTalking s"
  "lastCommand (onopen k tr s) = lastCommand s"
  "facingMode (onopen k tr s) = facingMode s"
  "isMutedRef (onopen k tr s) = isMutedRef s"
  "sessionRef (onopen k tr s) = sessionRef s"
  "sessionPromiseRef (onopen k tr s) = sessionPromiseRef s"
  "audioContextRef (onopen k tr s) = audioContextRef s"
  "nextStartTimeRef (onopen k tr s) = nextStartTimeRef s"
  "audioSourcesRef (onopen k tr s) = audioSourcesRef s"
  "transports (onopen k tr s) = transports s"
  "bufferSources (onopen k tr s) = bufferSources s"
  "timeouts (onopen k tr s) = timeouts s"
  "clock (onopen k tr s) = clock s"
  "sendCalls (onopen k tr s) = sendCalls s"
  "hasGetUserMedia (onopen k tr s) = hasGetUserMedia s"
  "pendingStarts (onopen k tr s) = pendingStarts s"
  "pendingDecodes (onopen k tr s) = pendingDecodes s"
  by (simp_all add: onopen_def Let_def)

lemma connect_resolved_frame [simp]:
  "isUserTalking (connect_resolved k tr b s) = isUserTalking s"
  "isModelTalking (connect_resolved k tr b s) = isModelTalking s"
  "lastCommand (connect_resolved k tr b s) = lastCommand s"
  "facingMode (connect_resolved k tr b s) = facingMode s"
  "isMutedRef (connect_resolved k tr b s) = isMutedRef s"
  "sessionPromiseRef (connect_resolved k tr b s) = sessionPromiseRef s"
  "audioContextRef (connect_resolved k tr b s) = audioContextRef s"
  "nextStartTimeRef (connect_resolved k tr b s) = nextStartTimeRef s"
  "audioSourcesRef (connect_resolved k tr b s) = audioSourcesRef s"
  "bufferSources (connect_resolved k tr b s) = bufferSources s"
  "timeouts (connect_resolved k tr b s) = timeouts s"
  "clock (connect_resolved k tr b s) = clock s"
  "sendCalls (connect_resolved k tr b s) = sendCalls s"
  "hasGetUserMedia (connect_resolved k tr b s) = hasGetUserMedia s"
  "pendingStarts (connect_resolved k tr b s) = pendingStarts s"
  "pendingDecodes (connect_resolved k tr b s) = pendingDecodes s"
  by (simp_all add: connect_resolved_def Let_def)

lemma applyMouseMode_frame [simp]:
  "lastCommand (applyMouseMode e s) = lastCommand s"
  "facingMode (applyMouseMode e s) = facingMode s"
  "isMutedRef (applyMouseMode e s) = isMutedRef s"
  "audioContextRef (applyMouseMode e s) = audioContextRef s"
  "audioNodesRef (applyMouseMode e s) = audioNodesRef s"
  "nextStartTimeRef (applyMouseMode e s) = nextStartTimeRef s"
  "mediaRequestRef (applyMouseMode e s) = mediaRequestRef s"
  "clock (applyMouseMode e s) = clock s"
  "sendCalls (applyMouseMode e s) = sendCalls s"
  "hasGetUserMedia (applyMouseMode e s) = hasGetUserMedia s"
  "pendingStarts (applyMouseMode e s) = pendingStarts s"
  "pendingMedia (applyMouseMode e s) = pendingMedia s"
  "pendingDecodes (applyMouseMode e s) = pendingDecodes s"
  by (simp_all add: applyMouseMode_def Let_def)

lemma toggleMouseMode_frame [simp]:
  "lastCommand (toggleMouseMode s) = lastCommand s"
  "facingMode (toggleMouseMode s) = facingMode s"
  "isMutedRef (toggleMouseMode s) = isMutedRef s"
  "audioContextRef (toggleMouseMode s) = audioContextRef s"
  "audioNodesRef (toggleMouseMode s) = audioNodesRef s"
  "nextStartTimeRef (toggleMouseMode s) = nextStartTimeRef s"
  "mediaRequestRef (toggleMouseMode s) = mediaRequestRef s"
  "clock (toggleMouseMode s) = clock s"
  "sendCalls (toggleMouseMode s) = sendCalls s"
  "hasGetUserMedia (toggleMouseMode s) = hasGetUserMedia s"
  "pendingStarts (toggleMouseMode s) = pendingStarts s"
  "pendingMedia (toggleMouseMode s) = pendingMedia s"
  "pendingDecodes (toggleMouseMode s) = pendingDecodes s"
  by (simp_all add: toggleMouseMode_def)

lemma toggle_muted_frame [simp]:
  "status (toggle_muted s) = status s"
  "isUserTalking (toggle_muted s) = isUserTalking s"
  "isModelTalking (toggle_muted s) = isModelTalking s"
  "lastCommand (toggle_muted s) = lastCommand s"
  "facingMode (toggle_muted s) = facingMode s"
  "sessionRef (toggle_muted s) = sessionRef s"
  "sessionPromiseRef (toggle_muted s) = sessionPromiseRef s"
  "audioContextRef (toggle_muted s) = audioContextRef s"
  "audioNodesRef (toggle_muted s) = audioNodesRef s"
  "nextStartTimeRef (toggle_muted s) = nextStartTimeRef s"
  "audioSourcesRef (toggle_muted s) = audioSourcesRef s"
  "videoSrcObject (toggle_muted s) = videoSrcObject s"
  "frameIntervalRef (toggle_muted s) = frameIntervalRef s"
  "mediaRequestRef (toggle_muted s) = mediaRequestRef s"
  "transports (toggle_muted s) = transports s"
  "audioNodes (toggle_muted s) = audioNodes s"
  "bufferSources (toggle_muted s) = bufferSources s"
  "streams (toggle_muted s) = streams s"
  "intervals (toggle_muted s) = intervals s"
  "timeouts (toggle_muted s) = timeouts s"
  "clock (toggle_muted s) = clock s"
  "sendCalls (toggle_muted s) = sendCalls s"
  "hasGetUserMedia (toggle_muted s) = hasGetUserMedia s"
  "pendingStarts (toggle_muted s) = pendingStarts s"
  "pendingMedia (toggle_muted s) = pendingMedia s"
  "pendingDecodes (toggle_muted s) = pendingDecodes s"
  by (simp_all add: toggle_muted_def)

lemma handleKeyDown_frame [simp]:
  "lastCommand (handleKeyDown e s) = lastCommand s"
  "facingMode (handleKeyDown e s) = facingMode s"
  "audioNodesRef (handleKeyDown e s) = audioNodesRef s"
  "nextStartTimeRef (handleKeyDown e s) = nextStartTimeRef s"
  "mediaRequestRef (handleKeyDown e s) = mediaRequestRef s"
  "timeouts (handleKeyDown e s) = timeouts s"
  "clock (handleKeyDown e s) = clock s"
  "sendCalls (handleKeyDown e s) = sendCalls s"
  "hasGetUserMedia (handleKeyDown e s) = hasGetUserMedia s"
  "pendingMedia (handleKeyDown e s) = pendingMedia s"
  "pendingDecodes (handleKeyDown e s) = pendingDecodes s"
  by (simp_all add: handleKeyDown_def Let_def)

lemma call_button_frame [simp]:
  "lastCommand (call_button s) = lastCommand s"
  "facingMode (call_button s) = facingMode s"
  "isMutedRef (call_button s) = isMutedRef s"
  "audioNodesRef (call_button s) = audioNodesRef s"
  "nextStartTimeRef (call_button s) = nextStartTimeRef s"
  "mediaRequestRef (call_button s) = mediaRequestRef s"
  "timeouts (call_button s) = timeouts s"
  "clock (call_button s) = clock s"
  "sendCalls (call_button s) = sendCalls s"
  "hasGetUserMedia (call_button s) = hasGetUserMedia s"
  "pendingMedia (call_button s) = pendingMedia s"
  "pendingDecodes (call_button s) = pendingDecodes s"
  by (simp_all add: call_button_def)

lemma onaudioprocess_frame [simp]:
  "status (onaudioprocess k d s) = status s"
  "config (onaudioprocess k d s) = config s"
  "isModelTalking (onaudioprocess k d s) = isModelTalking s"
  "lastCommand (onaudioprocess k d s) = lastCommand s"
  "facingMode (onaudioprocess k d s) = facingMode s"
  "isMutedRef (onaudioprocess k d s) = isMutedRef s"
  "sessionRef (onaudioprocess k d s) = sessionRef s"
  "sessionPromiseRef (onaudioprocess k d s) = sessionPromiseRef s"
  "audioContextRef (onaudioprocess k d s) = audioContextRef s"
  "audioNodesRef (onaudioprocess k d s) = audioNodesRef s"
  "nextStartTimeRef (onaudioprocess k d s) = nextStartTimeRef s"
  "audioSourcesRef (onaudioprocess k d s) = audioSourcesRef s"
  "videoSrcObject (onaudioprocess k d s) = videoSrcObject s"
  "frameIntervalRef (onaudioprocess k d s) = frameIntervalRef s"
  "mediaRequestRef (onaudioprocess k d s) = mediaRequestRef s"
  "transports (onaudioprocess k d s) = transports s"
  "audioNodes (onaudioprocess k d s) = audioNodes s"
  "bufferSources (onaudioprocess k d s) = bufferSources s"
  "streams (onaudioprocess k d s) = streams s"
  "intervals (onaudioprocess k d s) = intervals s"
  "timeouts (onaudioprocess k d s) = timeouts s"
  "clock (onaudioprocess k d s) = clock s"
  "hasGetUserMedia (onaudioprocess k d s) = hasGetUserMedia s"
  "pendingStarts (onaudioprocess k d s) = pendingStarts s"
  "pendingMedia (onaudioprocess k d s) = pendingMedia s"
  "pendingDecodes (onaudioprocess k d s) = pendingDecodes s"
  by (simp_all add: onaudioprocess_def Let_def)

lemma text_branch_frame [simp]:
  "status (text_branch b m s) = status s"
  "config (text_branch b m s) = config s"
  "isUserTalking (text_branch b m s) = isUserTalking s"
  "isModelTalking (text_branch b m s) = isModelTalking s"
  "facingMode (text_branch b m s) = facingMode s"
  "isMutedRef (text_branch b m s) = isMutedRef s"
  "sessionRef (text_branch b m s) = sessionRef s"
  "sessionPromiseRef (text_branch b m s) = sessionPromiseRef s"
  "audioContextRef (text_branch b m s) = audioContextRef s"
  "audioNodesRef (text_branch b m s) = audioNodesRef s"
  "nextStartTimeRef (text_branch b m s) = nextStartTimeRef s"
  "audioSourcesRef (text_branch b m s) = audioSourcesRef s"
  "videoSrcObject (text_branch b m s) = videoSrcObject s"
  "frameIntervalRef (text_branch b m s) = frameIntervalRef s"
  "mediaRequestRef (text_branch b m s) = mediaRequestRef s"
  "transports (text_branch b m s) = transports s"
  "audioNodes (text_branch b m s) = audioNodes s"
  "bufferSources (text_branch b m s) = bufferSources s"
  "streams (text_branch b m s) = streams s"
  "intervals (text_branch b m s) = intervals s"
  "clock (text_branch b m s) = clock s"
  "sendCalls (text_branch b m s) = sendCalls s"
  "hasGetUserMedia (text_branch b m s) = hasGetUserMedia s"
  "pendingStarts (text_branch b m s) = pendingStarts s"
  "pendingMedia (text_branch b m s) = pendingMedia s"
  "pendingDecodes (text_branch b m s) = pendingDecodes s"
  by (simp_all add: text_branch_def split: option.splits)

lemma audio_branch_frame [simp]:
  "status (audio_branch c m s) = status s"
  "config (audio_branch c m s) = config s"
  "isUserTalking (audio_branch c m s) = isUserTalking s"
  "lastCommand (audio_branch c m s) = lastCommand s"
  "facingMode (audio_branch c m s) = facingMode s"
  "isMutedRef (audio_branch c m s) = isMutedRef s"
  "sessionRef (audio_branch c m s) = sessionRef s"
  "sessionPromiseRef (audio_branch c m s) = sessionPromiseRef s"
  "audioContextRef (audio_branch c m s) = audioContextRef s"
  "audioNodesRef (audio_branch c m s) = audioNodesRef s"
  "videoSrcObject (audio_branch c m s) = videoSrcObject s"
  "frameIntervalRef (audio_branch c m s) = frameIntervalRef s"
  "mediaRequestRef (audio_branch c m s) = mediaRequestRef s"
  "transports (audio_branch c m s) = transports s"
  "audioNodes (audio_branch c m s) = audioNodes s"
  "streams (audio_branch c m s) = streams s"
  "intervals (audio_branch c m s) = intervals s"
  "timeouts (audio_branch c m s) = timeouts s"
  "clock (audio_branch c m s) = clock s"
  "sendCalls (audio_branch c m s) = sendCalls s"
  "hasGetUserMedia (audio_branch c m s) = hasGetUserMedia s"
  "pendingStarts (audio_branch c m s) = pendingStarts s"
  "pendingMedia (audio_branch c m s) = pendingMedia s"
  by (simp_all add: audio_branch_def Let_def split: sum.splits)

lemma onmessage_frame [simp]:
  "facingMode (onmessage k b c m s) = facingMode s"
  "isMutedRef (onmessage k b c m s) = isMutedRef s"
  "audioContextRef (onmessage k b c m s) = audioContextRef s"
  "audioNodesRef (onmessage k b c m s) = audioNodesRef s"
  "mediaRequestRef (onmessage k b c m s) = mediaRequestRef s"
  "clock (onmessage k b c m s) = clock s"
  "hasGetUserMedia (onmessage k b c m s) = hasGetUserMedia s"
  "pendingStarts (onmessage k b c m s) = pendingStarts s"
  "pendingMedia (onmessage k b c m s) = pendingMedia s"
  by (simp_all add: onmessage_def Let_def split: option.splits)

lemma decode_resolved_frame [simp]:
  "status (decode_resolved pd r s) = status s"
  "config (decode_resolved pd r s) = config s"
  "isUserTalking (decode_resolved pd r s) = isUserTalking s"
  "lastCommand (decode_resolved pd r s) = lastCommand s"
  "facingMode (decode_resolved pd r s) = facingMode s"
  "isMutedRef (decode_resolved pd r s) = isMutedRef s"
  "sessionRef (decode_resolved pd r s) = sessionRef s"
  "sessionPromiseRef (decode_resolved pd r s) = sessionPromiseRef s"
  "audioContextRef (decode_resolved pd r s) = audioContextRef s"
  "audioNodesRef (decode_resolved pd r s) = audioNodesRef s"
  "videoSrcObject (decode_resolved pd r s) = videoSrcObject s"
  "frameIntervalRef (decode_resolved pd r s) = frameIntervalRef s"
  "mediaRequestRef (decode_resolved pd r s) = mediaRequestRef s"
  "transports (decode_resolved pd r s) = transports s"
  "audioNodes (decode_resolved pd r s) = audioNodes s"
  "streams (decode_resolved pd r s) = streams s"
  "intervals (decode_resolved pd r s) = intervals s"
  "timeouts (decode_resolved pd r s) = timeouts s"
  "clock (decode_resolved pd r s) = clock s"
  "sendCalls (decode_resolved pd r s) = sendCalls s"
  "hasGetUserMedia (decode_resolved pd r s) = hasGetUserMedia s"
  "pendingStarts (decode_resolved pd r s) = pendingStarts s"
  "pendingMedia (decode_resolved pd r s) = pendingMedia s"
  "pendingDecodes (decode_resolved pd r s) = pendingDecodes s"
  by (simp_all add: decode_resolved_def Let_def split: option.splits)

lemma fire_timeout_frame [simp]:
  "config (fire_timeout a s) = config s"
  "isUserTalking (fire_timeout a s) = isUserTalking s"
  "isModelTalking (fire_timeout a s) = isModelTalking s"
  "facingMode (fire_timeout a s) = facingMode s"
  "isMutedRef (fire_timeout a s) = isMutedRef s"
  "sessionRef (fire_timeout a s) = sessionRef s"
  "sessionPromiseRef (fire_timeout a s) = sessionPromiseRef s"
  "audioNodesRef (fire_timeout a s) = audioNodesRef s"
  "nextStartTimeRef (fire_timeout a s) = nextStartTimeRef s"
  "audioSourcesRef (fire_timeout a s) = audioSourcesRef s"
  "videoSrcObject (fire_timeout a s) = videoSrcObject s"
  "frameIntervalRef (fire_timeout a s) = frameIntervalRef s"
  "mediaRequestRef (fire_timeout a s) = mediaRequestRef s"
  "transports (fire_timeout a s) = transports s"
  "audioNodes (fire_timeout a s) = audioNodes s"
  "bufferSources (fire_timeout a s) = bufferSources s"
  "streams (fire_timeout a s) = streams s"
  "intervals (fire_timeout a s) = intervals s"
  "timeouts (fire_timeout a s) = timeouts s"
  "clock (fire_timeout a s) = clock s"
  "sendCalls (fire_timeout a s) = sendCalls s"
  "hasGetUserMedia (fire_timeout a s) = hasGetUserMedia s"
  "pendingMedia (fire_timeout a s) = pendingMedia s"
  "pendingDecodes (fire_timeout a s) = pendingDecodes s"
  by (cases a; simp)+

lemma interrupted_branch_effect [simp]:
  "audioSourcesRef (interrupted_branch s) = []"
  "nextStartTimeRef (interrupted_branch s) = 0"
  "isModelTalking (interrupted_branch s) = False"
  "bufferSources (interrupted_branch s) = stop_sources (audioSourcesRef s) (bufferSources s)"
  by (simp_all add: interrupted_branch_def)

lemma audio_scheduled_effect [simp]:
  "bufferSources (audio_scheduled b s) = bufferSources s @
     [\<lparr> startAt = nextStartTimeRef s, duration = buffer_duration b, stopped = False \<rparr>]"
  "audioSourcesRef (audio_scheduled b s) = audioSourcesRef s @ [length (bufferSources s)]"
  "nextStartTimeRef (audio_scheduled b s) = nextStartTimeRef s + buffer_duration b"
  by (simp_all add: audio_scheduled_def)

lemma audio_begin_effect [simp]:
  "isModelTalking (audio_begin c s) = True"
  "nextStartTimeRef (audio_begin c s) = max (nextStartTimeRef s) c"
  by (simp_all add: audio_begin_def)


section \<open>The example states\<close>

lemma connected_example_fields:
  "status connected_example = CONNECTED"
  "sessionRef connected_example = Some 0"
  "audioNodesRef connected_example = Some 0"
  "videoSrcObject connected_example = Some 0"
  "frameIntervalRef connected_example = Some 0"
  "length (transports connected_example) = 1"
  "length (audioNodes connected_example) = 1"
  "length (streams connected_example) = 1"
  "length (intervals connected_example) = 1"
  "bufferSources connected_example = []"
  "audioSourcesRef connected_example = []"
  "isCameraEnabled (config connected_example)"
  "mediaRequestRef connected_example = 1"
  by code_simp+






section \<open>The playback queue under arbitrary interleaving\<close>

lemma stop_source_times:
  "startAt (stop_source i bs ! j) = startAt (bs ! j)"
  "duration (stop_source i bs ! j) = duration (bs ! j)"
  by (simp_all add: stop_source_def nth_list_update)

lemma stop_sources_times:
  "startAt (stop_sources ids bs ! j) = startAt (bs ! j)"
  "duration (stop_sources ids bs ! j) = duration (bs ! j)"
  unfolding stop_sources_def
  by (induction ids arbitrary: bs) (simp_all add: stop_source_times)
























section \<open>Playback scheduling\<close>













section \<open>Interruption\<close>






section \<open>Teardown\<close>



section \<open>Media acquisition\<close>

lemma toggleCamera_effect:
  "mediaRequestRef (toggleCamera f s) = mediaRequestRef s + 1"
  "f \<or> \<not> isCameraEnabled (config s) \<Longrightarrow>
     pendingMedia (toggleCamera f s) =
       pendingMedia s @ [Some \<lparr> pm_kind = Camera, pm_sequence = mediaRequestRef s + 1 \<rparr>]"
  by (simp_all add: toggleCamera_def Let_def)

lemma toggleScreenShare_effect:
  "mediaRequestRef (toggleScreenShare f s) = mediaRequestRef s + 1"
  "f \<or> \<not> isScreenSharing (config s) \<Longrightarrow>
     pendingMedia (toggleScreenShare f s) =
       pendingMedia s @ [Some \<lparr> pm_kind = Screen, pm_sequence = mediaRequestRef s + 1 \<rparr>]"
  by (simp_all add: toggleScreenShare_def Let_def)

lemma acquisition_resolved_stale:
  "pm_sequence r \<noteq> mediaRequestRef s \<Longrightarrow>
   acquisition_resolved r s = s\<lparr> streams := streams s @ [False] \<rparr>"
  by (simp add: acquisition_resolved_def Let_def stop_tracks_def)

text \<open>
  C5. A call of \<open>toggleCamera\<close> or \<open>toggleScreenShare\<close> increments the request counter
  and, when it acquires, suspends with the incremented value as its sequence. When the
  acquisition resolves with a stream while the counter differs from that sequence (it only
  grows, so it has advanced past it), the tracks of the new stream are stopped and nothing
  else changes: the stream is not attached to the video element, no sampler is started and
  no flag is set.
\<close>

theorem stale_acquisition_discarded:
  "mediaRequestRef (toggleCamera f s) = mediaRequestRef s + 1
   \<and> mediaRequestRef (toggleScreenShare f s) = mediaRequestRef s + 1
   \<and> (f \<or> \<not> isCameraEnabled (config s) \<longrightarrow>
        pendingMedia (toggleCamera f s) =
          pendingMedia s @ [Some \<lparr> pm_kind = Camera, pm_sequence = mediaRequestRef s + 1 \<rparr>])
   \<and> (f \<or> \<not> isScreenSharing (config s) \<longrightarrow>
        pendingMedia (toggleScreenShare f s) =
          pendingMedia s @ [Some \<lparr> pm_kind = Screen, pm_sequence = mediaRequestRef s + 1 \<rparr>])
   \<and> (pm_sequence r \<noteq> mediaRequestRef s \<longrightarrow>
        acquisition_resolved r s = s\<lparr> streams := streams s @ [False] \<rparr>)"
  using toggleCamera_effect[of f s] toggleScreenShare_effect[of f s]
    acquisition_resolved_stale[of r s]
  by blast

lemma rapid_toggle_example_fields:
  "mediaRequestRef rapid_toggle_example = 2"
  "pendingMedia rapid_toggle_example =
     [Some \<lparr> pm_kind = Camera, pm_sequence = 1 \<rparr>, Some \<lparr> pm_kind = Camera, pm_sequence = 2 \<rparr>]"
  "videoSrcObject rapid_toggle_example = None"
  "streams rapid_toggle_example = []"
  by code_simp+

theorem stale_acquisition_discarded_witness:
  "pendingMedia rapid_toggle_example =
     [Some \<lparr> pm_kind = Camera, pm_sequence = 1 \<rparr>, Some \<lparr> pm_kind = Camera, pm_sequence = 2 \<rparr>]
   \<and> mediaRequestRef rapid_toggle_example = 2
   \<and> streams (acquisition_resolved \<lparr> pm_kind = Camera, pm_sequence = 1 \<rparr> rapid_toggle_example)
       = [False]
   \<and> videoSrcObject
        (acquisition_resolved \<lparr> pm_kind = Camera, pm_sequence = 1 \<rparr> rapid_toggle_example) = None
   \<and> \<not> isCameraEnabled (config
        (acquisition_resolved \<lparr> pm_kind = Camera, pm_sequence = 1 \<rparr> rapid_toggle_example))"
proof -
  let ?r = "\<lparr> pm_kind = Camera, pm_sequence = 1 \<rparr>"
  have stale: "pm_sequence ?r \<noteq> mediaRequestRef rapid_toggle_example"
    by (simp add: rapid_toggle_example_fields)
  have eq: "acquisition_resolved ?r rapid_toggle_example =
      rapid_toggle_example\<lparr> streams := streams rapid_toggle_example @ [False] \<rparr>"
    using stale_acquisition_discarded[of False rapid_toggle_example ?r] stale by blast
  have cam: "\<not> isCameraEnabled (config rapid_toggle_example)"
    by code_simp
  show ?thesis
    unfolding eq using cam by (simp add: rapid_toggle_example_fields)
qed

text \<open>
  C9. When a camera or screen acquisition fails, the handler sets the flag of the
  requested capability to false and changes nothing else: the status, the other capture
  flag and the rest of the configuration, the session handle and its promise, the
  transports, the audio nodes and the playback state are as before.
\<close>

theorem acquisition_failure_frame:
  "status (acquisition_rejected r s) = status s
   \<and> sessionRef (acquisition_rejected r s) = sessionRef s
   \<and> sessionPromiseRef (acquisition_rejected r s) = sessionPromiseRef s
   \<and> transports (acquisition_rejected r s) = transports s
   \<and> audioNodes (acquisition_rejected r s) = audioNodes s
   \<and> audioNodesRef (acquisition_rejected r s) = audioNodesRef s
   \<and> nextStartTimeRef (acquisition_rejected r s) = nextStartTimeRef s
   \<and> audioSourcesRef (acquisition_rejected r s) = audioSourcesRef s
   \<and> bufferSources (acquisition_rejected r s) = bufferSources s
   \<and> isModelTalking (acquisition_rejected r s) = isModelTalking s
   \<and> isUserTalking (acquisition_rejected r s) = isUserTalking s
   \<and> (pm_kind r = Camera \<longrightarrow>
        config (acquisition_rejected r s) = (config s)\<lparr> isCameraEnabled := False \<rparr>)
   \<and> (pm_kind r = Screen \<longrightarrow>
        config (acquisition_rejected r s) = (config s)\<lparr> isScreenSharing := False \<rparr>)"
  by (cases "pm_kind r") (simp_all add: acquisition_rejected_def)

theorem acquisition_failure_frame_witness:
  "status (acquisition_rejected \<lparr> pm_kind = Screen, pm_sequence = 2 \<rparr> connected_example)
     = CONNECTED
   \<and> sessionRef (acquisition_rejected \<lparr> pm_kind = Screen, pm_sequence = 2 \<rparr> connected_example)
     = Some 0
   \<and> isCameraEnabled (config
       (acquisition_rejected \<lparr> pm_kind = Screen, pm_sequence = 2 \<rparr> connected_example))
   \<and> \<not> isScreenSharing (config
       (acquisition_rejected \<lparr> pm_kind = Screen, pm_sequence = 2 \<rparr> connected_example))"
  using acquisition_failure_frame[of "\<lparr> pm_kind = Screen, pm_sequence = 2 \<rparr>" connected_example]
  by (simp add: connected_example_fields)

section \<open>Microphone frames\<close>

text \<open>
  C10. While the mute flag is set, the frame handler calls no send (the list of send calls
  is as before, so the frame is dropped and not sent as silence) and sets the
  user-talking indicator to false; when the flag is not set it sends exactly the frame it
  was given, so a frame is sent only when unmuted.
\<close>

theorem muted_frame_dropped:
  "(isMutedRef s \<longrightarrow>
      sendCalls (onaudioprocess k inputData s) = sendCalls s
      \<and> \<not> isUserTalking (onaudioprocess k inputData s))
   \<and> (\<not> isMutedRef s \<longrightarrow>
      sendCalls (onaudioprocess k inputData s) = sendCalls s @ [(k, AudioFrame inputData)])
   \<and> (sendCalls (onaudioprocess k inputData s) \<noteq> sendCalls s \<longrightarrow> \<not> isMutedRef s)"
  by (simp add: onaudioprocess_def Let_def)

lemma muted_example_fields:
  "isMutedRef muted_example"
  "sendCalls muted_example = []"
  by code_simp+

theorem muted_frame_dropped_witness:
  "isMutedRef muted_example
   \<and> sendCalls (onaudioprocess 0 [0.5, - 0.5] muted_example) = []
   \<and> \<not> isUserTalking (onaudioprocess 0 [0.5, - 0.5] muted_example)
   \<and> sendCalls (onaudioprocess 0 [0.5, - 0.5] connected_example) = [(0, AudioFrame [0.5, - 0.5])]"
proof -
  have u: "\<not> isMutedRef connected_example" "sendCalls connected_example = []"
    by code_simp+
  show ?thesis
    using muted_frame_dropped[of muted_example 0 "[0.5, - 0.5]"]
      muted_frame_dropped[of connected_example 0 "[0.5, - 0.5]"] u
    by (simp add: muted_example_fields)
qed

section \<open>JSON.parse: the bound on nested calls is never the reason of a failure\<close>

lemma skip_space_length: "length (skip_space t) \<le> length t"
  by (simp add: skip_space_def length_dropWhile_le)

lemma parse_string_body_rest:
  "parse_string_body t = Some (b, r) \<Longrightarrow> length r < length t"
proof (induction t arbitrary: b r rule: parse_string_body.induct)
  case 1
  then show ?case by simp
next
  case (2 c cs)
  show ?case
  proof (cases "c = CHR 0x22")
    case True
    then show ?thesis using "2.prems" by simp
  next
    case notq: False
    show ?thesis
    proof (cases "c = CHR 0x5C")
      case True
      then obtain e rr where cs: "cs = e # rr"
        using "2.prems" notq by (cases cs) auto
      show ?thesis
      proof (cases "e = CHR ''u''")
        case u: True
        then obtain n body where h: "hex4_value (take 4 rr) = Some n"
          "parse_string_body (drop 4 rr) = Some (body, r)"
          using "2.prems" notq True cs by (auto split: option.splits)
        have "length r < length (drop 4 rr)"
          using "2.IH"(1)[OF notq True cs u h(1) h(2)] .
        then show ?thesis using cs by simp
      next
        case nu: False
        then obtain ch body where h: "simple_escape e = Some ch"
          "parse_string_body rr = Some (body, r)"
          using "2.prems" notq True cs by (auto split: option.splits)
        have "length r < length rr"
          using "2.IH"(2)[OF notq True cs nu h(1) h(2)] .
        then show ?thesis using cs by simp
      qed
    next
      case nb: False
      then obtain body where h: "\<not> (of_char c :: nat) < 32" "parse_string_body cs = Some (body, r)"
        using "2.prems" notq by (auto split: option.splits if_splits)
      have "length r < length cs"
        using "2.IH"(3)[OF notq nb h(1) h(2)] .
      then show ?thesis by simp
    qed
  qed
qed

lemma parse_exponent_rest:
  assumes h: "parse_exponent t = Some (e, r)"
  shows "length r \<le> length t"
proof (cases t)
  case Nil
  then show ?thesis using h by (simp add: parse_exponent_def)
next
  case (Cons c cs)
  have a: "length (dropWhile is_digit cs) \<le> length cs"
    by (rule length_dropWhile_le)
  have b: "length (dropWhile is_digit (tl cs)) \<le> length cs"
    using length_dropWhile_le[of is_digit "tl cs"] by simp
  show ?thesis
    using h Cons a b
    by (auto simp: parse_exponent_def Let_def split: if_splits)
qed

lemma parse_fraction_rest:
  assumes h: "parse_fraction t = Some (f, r)"
  shows "length r \<le> length t"
proof (cases t)
  case Nil
  then show ?thesis using h by (simp add: parse_fraction_def)
next
  case (Cons c cs)
  have a: "length (dropWhile is_digit cs) \<le> length cs"
    by (rule length_dropWhile_le)
  show ?thesis
    using h Cons a
    by (auto simp: parse_fraction_def Let_def split: if_splits)
qed

lemma parse_number_rest:
  assumes "parse_number t = Some (x, r)"
  shows "length r < length t"
proof -
  define t1 where "t1 = (if t \<noteq> [] \<and> hd t = CHR ''-'' then tl t else t)"
  define ds where "ds = (if t1 \<noteq> [] \<and> hd t1 = CHR ''0'' then ''0'' else takeWhile is_digit t1)"
  define t2 where "t2 = drop (length ds) t1"
  have ds: "ds \<noteq> []"
    using assms unfolding parse_number_def Let_def ds_def t1_def
    by (auto split: if_splits)
  obtain f t3 where f: "parse_fraction t2 = Some (f, t3)"
    using assms ds unfolding parse_number_def Let_def ds_def t1_def t2_def
    by (auto split: if_splits option.splits)
  obtain e where e: "parse_exponent t3 = Some (e, r)"
    using assms ds f unfolding parse_number_def Let_def ds_def t1_def t2_def
    by (auto split: if_splits option.splits)
  have "length ds \<le> length t1"
    unfolding ds_def by (cases t1) (auto simp: length_takeWhile_le)
  then have "length t2 < length t1"
    using ds unfolding t2_def by (cases ds) auto
  moreover have "length t1 \<le> length t"
    unfolding t1_def by simp
  moreover have "length r \<le> length t2"
    using parse_fraction_rest[OF f] parse_exponent_rest[OF e] by simp
  ultimately show ?thesis by simp
qed

lemma tl_skip_space_length: "length (tl (skip_space t)) \<le> length t"
  using skip_space_length[of t] by simp

lemma parse_rest:
  "(\<forall>t v r. parse_value n t = Some (v, r) \<longrightarrow> length r < length t)
   \<and> (\<forall>acc t vs r. parse_elements n acc t = Some (vs, r) \<longrightarrow> length r < length t)
   \<and> (\<forall>acc t ms r. parse_members n acc t = Some (ms, r) \<longrightarrow> length r < length t)"
proof (induction n)
  case 0
  show ?case by simp
next
  case (Suc n)
  then have IHv: "\<And>t v r. parse_value n t = Some (v, r) \<Longrightarrow> length r < length t"
    and IHe: "\<And>acc t vs r. parse_elements n acc t = Some (vs, r) \<Longrightarrow> length r < length t"
    and IHm: "\<And>acc t ms r. parse_members n acc t = Some (ms, r) \<Longrightarrow> length r < length t"
    by blast+
  have v: "length r < length t" if pv: "parse_value (Suc n) t = Some (v, r)" for t v r
  proof -
    obtain c cs where sk: "skip_space t = c # cs"
      using pv by (cases "skip_space t") simp_all
    have lcs: "length cs < length t"
      using skip_space_length[of t] sk by simp
    have l2: "length (tl (skip_space cs)) < length t"
      using tl_skip_space_length[of cs] lcs by simp
    have l3: "length (drop k (c # cs)) \<le> length cs" if "0 < k" for k
      using that by (cases k) simp_all
    show ?thesis
    proof (cases "c = CHR 0x7B")
      case True
      then show ?thesis
        using pv sk l2 lcs IHm[of "[]" cs]
        by (auto split: if_splits option.splits; fastforce)
    next
      case nobj: False
      show ?thesis
      proof (cases "c = CHR ''[''")
        case True
        then show ?thesis
          using pv sk l2 lcs nobj IHe[of "[]" cs]
          by (auto split: if_splits option.splits; fastforce)
      next
        case narr: False
        show ?thesis
        proof (cases "c = CHR 0x22")
          case True
          then show ?thesis
            using pv sk lcs nobj narr parse_string_body_rest[of cs]
            by (auto split: if_splits option.splits; fastforce)
        next
          case nstr: False
          have "length r \<le> length cs"
            using pv sk nobj narr nstr l3[of 4] l3[of 5] parse_number_rest[of "c # cs"]
            by (auto split: if_splits option.splits; fastforce)
          then show ?thesis using lcs by simp
        qed
      qed
    qed
  qed
  have e: "length r < length t" if pe: "parse_elements (Suc n) acc t = Some (vs, r)"
    for acc t vs r
  proof -
    obtain v rest where pv: "parse_value n t = Some (v, rest)"
      using pe by (auto split: option.splits)
    have lr: "length rest < length t"
      using IHv[OF pv] .
    have l2: "length (tl (skip_space rest)) \<le> length rest"
      by (rule tl_skip_space_length)
    show ?thesis
      using pe pv lr l2 IHe[of "acc @ [v]" "tl (skip_space rest)"]
      by (auto split: if_splits; fastforce)
  qed
  have m: "length r < length t" if pm: "parse_members (Suc n) acc t = Some (ms, r)"
    for acc t ms r
  proof -
    obtain key rest where pk: "parse_string_body (tl (skip_space t)) = Some (key, rest)"
      using pm by (auto split: if_splits option.splits)
    have lk: "length rest < length t"
      using parse_string_body_rest[OF pk] tl_skip_space_length[of t] by simp
    obtain v rest' where pv: "parse_value n (tl (skip_space rest)) = Some (v, rest')"
      using pm pk by (auto split: if_splits option.splits)
    have lv: "length rest' < length t"
      using IHv[OF pv] tl_skip_space_length[of rest] lk by simp
    have l2: "length (tl (skip_space rest')) \<le> length rest'"
      by (rule tl_skip_space_length)
    show ?thesis
      using pm pk pv lv l2 IHm[of "acc @ [(key, v)]" "tl (skip_space rest')"]
      by (auto split: if_splits; fastforce)
  qed
  show ?case
    using v e m by blast
qed

lemma startsWith_nonempty: "startsWith t [c] \<Longrightarrow> length (tl t) < length t"
  by (cases t) (simp_all add: startsWith_def)

lemma parse_enough:
  "(\<forall>t v r m. parse_value n t = Some (v, r) \<longrightarrow> length t - length r \<le> m \<longrightarrow>
       parse_value m t = Some (v, r))
   \<and> (\<forall>acc t vs r m. parse_elements n acc t = Some (vs, r) \<longrightarrow> length t - length r \<le> m \<longrightarrow>
       parse_elements m acc t = Some (vs, r))
   \<and> (\<forall>acc t ms r m. parse_members n acc t = Some (ms, r) \<longrightarrow> length t - length r \<le> m \<longrightarrow>
       parse_members m acc t = Some (ms, r))"
proof (induction n)
  case 0
  show ?case by simp
next
  case (Suc n)
  then have IHv: "\<And>t v r m. parse_value n t = Some (v, r) \<Longrightarrow> length t - length r \<le> m \<Longrightarrow>
       parse_value m t = Some (v, r)"
    and IHe: "\<And>acc t vs r m. parse_elements n acc t = Some (vs, r) \<Longrightarrow>
       length t - length r \<le> m \<Longrightarrow> parse_elements m acc t = Some (vs, r)"
    and IHm: "\<And>acc t ms r m. parse_members n acc t = Some (ms, r) \<Longrightarrow>
       length t - length r \<le> m \<Longrightarrow> parse_members m acc t = Some (ms, r)"
    by blast+
  note restv = parse_rest[THEN conjunct1, rule_format]
  note reste = parse_rest[THEN conjunct2, THEN conjunct1, rule_format]
  note restm = parse_rest[THEN conjunct2, THEN conjunct2, rule_format]
  have v: "parse_value m t = Some (v, r)"
    if pv: "parse_value (Suc n) t = Some (v, r)" and le: "length t - length r \<le> m" for t v r m
  proof -
    have "length r < length t"
      using restv[OF pv] .
    then obtain m' where m: "m = Suc m'" and le': "length t - length r - 1 \<le> m'"
      using le by (cases m) auto
    obtain c cs where sk: "skip_space t = c # cs"
      using pv by (cases "skip_space t") simp_all
    have lcs: "length cs < length t"
      using skip_space_length[of t] sk by simp
    have mem: "parse_members m' [] cs = parse_members n [] cs"
      if "parse_members n [] cs = Some (ms, r)" for ms
      using IHm[OF that, of m'] that le' lcs by simp
    have elt: "parse_elements m' [] cs = parse_elements n [] cs"
      if "parse_elements n [] cs = Some (vs, r)" for vs
      using IHe[OF that, of m'] that le' lcs by simp
    have "parse_value (Suc m') t = parse_value (Suc n) t"
      using pv sk mem elt
      by (auto split: if_splits option.splits)
    then show ?thesis
      using pv m by simp
  qed
  have e: "parse_elements m acc t = Some (vs, r)"
    if pe: "parse_elements (Suc n) acc t = Some (vs, r)" and le: "length t - length r \<le> m"
    for acc t vs r m
  proof -
    have lt: "length r < length t"
      using reste[OF pe] .
    then obtain m' where m: "m = Suc m'" and le': "length t - length r - 1 \<le> m'"
      using le by (cases m) auto
    obtain v rest where pv: "parse_value n t = Some (v, rest)"
      using pe by (auto split: option.splits)
    have lrest: "length rest < length t"
      using restv[OF pv] .
    have tail: "length (tl (skip_space rest)) \<le> length rest"
      by (rule tl_skip_space_length)
    have more: "length r < length rest
        \<and> (startsWith (skip_space rest) '','' \<longrightarrow>
             parse_elements m' (acc @ [v]) (tl (skip_space rest)) =
             parse_elements n (acc @ [v]) (tl (skip_space rest)))"
    proof (cases "startsWith (skip_space rest) '',''")
      case True
      then have rec: "parse_elements n (acc @ [v]) (tl (skip_space rest)) = Some (vs, r)"
        using pe pv by simp
      have a: "length r < length (tl (skip_space rest))"
        using reste[OF rec] .
      then have b: "length r < length rest"
        using tail by simp
      have "length (tl (skip_space rest)) - length r \<le> m'"
        using le' tail lrest a by arith
      then have "parse_elements m' (acc @ [v]) (tl (skip_space rest)) = Some (vs, r)"
        using IHe[OF rec] by simp
      then show ?thesis using rec b by simp
    next
      case False
      then have c: "startsWith (skip_space rest) '']''" and r: "r = tl (skip_space rest)"
        using pe pv by (auto split: if_splits)
      have "length r < length (skip_space rest)"
        unfolding r using c by (rule startsWith_nonempty)
      then show ?thesis
        using False skip_space_length[of rest] by simp
    qed
    have "length t - length rest \<le> m'"
      using le' more[THEN conjunct1] lrest by arith
    then have pv': "parse_value m' t = Some (v, rest)"
      using IHv[OF pv] by simp
    have "parse_elements (Suc m') acc t = parse_elements (Suc n) acc t"
      using pv pv' more by simp
    then show ?thesis
      using pe m by simp
  qed
  have mm: "parse_members m acc t = Some (ms, r)"
    if pm: "parse_members (Suc n) acc t = Some (ms, r)" and le: "length t - length r \<le> m"
    for acc t ms r m
  proof -
    have lt: "length r < length t"
      using restm[OF pm] .
    then obtain m' where m: "m = Suc m'" and le': "length t - length r - 1 \<le> m'"
      using le by (cases m) auto
    have q: "startsWith (skip_space t) [CHR 0x22]"
      using pm by (auto split: if_splits)
    obtain key rest where pk: "parse_string_body (tl (skip_space t)) = Some (key, rest)"
      using pm by (auto split: if_splits option.splits)
    have lk: "length rest < length t"
      using parse_string_body_rest[OF pk] tl_skip_space_length[of t] by simp
    have col: "startsWith (skip_space rest) '':''"
      using pm pk q by (auto split: if_splits)
    obtain v rest' where pv: "parse_value n (tl (skip_space rest)) = Some (v, rest')"
      using pm pk q col by (auto split: if_splits option.splits)
    have lin: "length (tl (skip_space rest)) < length t"
      using tl_skip_space_length[of rest] lk by simp
    have lv: "length rest' < length (tl (skip_space rest))"
      using restv[OF pv] .
    have tail: "length (tl (skip_space rest')) \<le> length rest'"
      by (rule tl_skip_space_length)
    have more: "length r < length rest'
        \<and> (startsWith (skip_space rest') '','' \<longrightarrow>
             parse_members m' (acc @ [(key, v)]) (tl (skip_space rest')) =
             parse_members n (acc @ [(key, v)]) (tl (skip_space rest')))"
    proof (cases "startsWith (skip_space rest') '',''")
      case True
      then have rec: "parse_members n (acc @ [(key, v)]) (tl (skip_space rest')) = Some (ms, r)"
        using pm pk pv q col by simp
      have a: "length r < length (tl (skip_space rest'))"
        using restm[OF rec] .
      then have b: "length r < length rest'"
        using tail by simp
      have "length (tl (skip_space rest')) - length r \<le> m'"
        using le' tail lv lin a by arith
      then have "parse_members m' (acc @ [(key, v)]) (tl (skip_space rest')) = Some (ms, r)"
        using IHm[OF rec] by simp
      then show ?thesis using rec b by simp
    next
      case False
      then have c: "startsWith (skip_space rest') [CHR 0x7D]" and r: "r = tl (skip_space rest')"
        using pm pk pv q col by (auto split: if_splits)
      have "length r < length (skip_space rest')"
        unfolding r using c by (rule startsWith_nonempty)
      then show ?thesis
        using False skip_space_length[of rest'] by simp
    qed
    have "length (tl (skip_space rest)) - length rest' \<le> m'"
      using le' more[THEN conjunct1] lv lin by arith
    then have pv': "parse_value m' (tl (skip_space rest)) = Some (v, rest')"
      using IHv[OF pv] by simp
    have "parse_members (Suc m') acc t = parse_members (Suc n) acc t"
      using pk pv pv' more q col by simp
    then show ?thesis
      using pm m by simp
  qed
  show ?case
    using v e mm by blast
qed

text \<open>
  A text that \<open>JSON_parse\<close> rejects is rejected with any bound on the nesting: no
  bound makes the descent accept it as a whole.
\<close>

lemma JSON_parse_None_any_bound:
  assumes "JSON_parse t = None" and "parse_value n t = Some (v, r)"
  shows "skip_space r \<noteq> []"
proof -
  have "length t - length r \<le> Suc (length t)"
    by simp
  then have "parse_value (Suc (length t)) t = Some (v, r)"
    using parse_enough[THEN conjunct1, rule_format, OF assms(2)] by blast
  then show ?thesis
    using assms(1) by (simp add: JSON_parse_def split: if_splits)
qed

lemma JSON_parse_any_bound:
  assumes "parse_value n t = Some (v, r)" and "skip_space r = []"
  shows "JSON_parse t = Some v"
proof -
  have "length t - length r \<le> Suc (length t)"
    by simp
  then have "parse_value (Suc (length t)) t = Some (v, r)"
    using parse_enough[THEN conjunct1, rule_format, OF assms(1)] by blast
  then show ?thesis
    using assms(2) by (simp add: JSON_parse_def)
qed

section \<open>Concurrent sessions\<close>

text \<open>
  C3. Enter is pressed twice while the status is Connecting, both microphone requests are
  granted and both connections open: two sessions are open at once. Escape then closes
  the one in the session handle and the other stays open.
\<close>

theorem double_enter_opens_two_sessions:
  "open_sessions (run double_enter_events initial_app) = 2
   \<and> open_sessions (run (double_enter_events @ [KeyDown ''Escape'']) initial_app) = 1"
  by code_simp

section \<open>Command parsing\<close>

lemma text_command_parse_failure:
  "(\<And>j. match_braces txt = Some j \<Longrightarrow> JSON_parse j = None) \<Longrightarrow> text_command txt = None"
  by (simp add: text_command_def split: option.splits)

text \<open>
  C6. The text branch publishes for \<open>{"action":"move","direction":"left","value":10,
  "application":""}\<close> the command with exactly these four fields, for \<open>not json\<close> nothing
  and for \<open>{"action":"none"}\<close> nothing. A text whose braces do not hold JSON publishes nothing:
  the failure is a value of the branch, which returns the state it was given.
\<close>

theorem command_parsing:
  "text_command move_command_text =
     Some (JObject [(''action'', JString ''move''), (''direction'', JString ''left''),
                    (''value'', JNumber 10), (''application'', JString [])])
   \<and> text_command not_json_text = None
   \<and> text_command none_command_text = None
   \<and> ((\<forall>j. match_braces txt = Some j \<longrightarrow> JSON_parse j = None) \<longrightarrow>
        text_command txt = None
        \<and> text_branch b \<lparr> toolCall = None,
             modelTurn = Some (Some [\<lparr> part_text = Some txt, part_inlineData = None \<rparr>]),
             interrupted = False \<rparr> s = s)"
proof -
  have 1: "text_command move_command_text =
     Some (JObject [(''action'', JString ''move''), (''direction'', JString ''left''),
                    (''value'', JNumber 10), (''application'', JString [])])"
    by code_simp
  have 2: "text_command not_json_text = None"
    by code_simp
  have 3: "text_command none_command_text = None"
    by code_simp
  have 4: "(\<forall>j. match_braces txt = Some j \<longrightarrow> JSON_parse j = None) \<longrightarrow>
        text_command txt = None
        \<and> text_branch b \<lparr> toolCall = None,
             modelTurn = Some (Some [\<lparr> part_text = Some txt, part_inlineData = None \<rparr>]),
             interrupted = False \<rparr> s = s"
  proof
    assume h: "\<forall>j. match_braces txt = Some j \<longrightarrow> JSON_parse j = None"
    then have n: "text_command txt = None"
      by (simp add: text_command_parse_failure)
    then show "text_command txt = None
        \<and> text_branch b \<lparr> toolCall = None,
             modelTurn = Some (Some [\<lparr> part_text = Some txt, part_inlineData = None \<rparr>]),
             interrupted = False \<rparr> s = s"
      by (simp add: text_branch_def)
  qed
  show ?thesis
    using 1 2 3 4 by blast
qed

theorem command_parsing_witness:
  "isJsonLike malformed_command_text
   \<and> match_braces malformed_command_text = Some malformed_command_text
   \<and> JSON_parse malformed_command_text = None
   \<and> text_command malformed_command_text = None
   \<and> text_branch True \<lparr> toolCall = None,
        modelTurn = Some (Some [\<lparr> part_text = Some malformed_command_text,
                                  part_inlineData = None \<rparr>]),
        interrupted = False \<rparr> initial_app = initial_app"
proof -
  have a: "isJsonLike malformed_command_text"
    by code_simp
  have m: "match_braces malformed_command_text = Some malformed_command_text"
    by code_simp
  have p: "JSON_parse malformed_command_text = None"
    by code_simp
  have h: "\<forall>j. match_braces malformed_command_text = Some j \<longrightarrow> JSON_parse j = None"
    using m p by simp
  show ?thesis
    using a m p h command_parsing[of malformed_command_text True initial_app] by blast
qed

section \<open>Session status\<close>





















section \<open>Command expiry\<close>















end
